theory Spec2Isabelle
  imports Main "HOL-Library.Word" "HOL-Library.Sublist"
begin

unbundle bit_operations_syntax

section \<open>Paths and URIs (util/uri.go)\<close>

text \<open>
  Go strings are byte sequences; they are modelled as \<^typ>\<open>string\<close>, a list of
  8-bit characters.  The functions of \<open>path/filepath\<close> that \<open>util/uri.go\<close> calls
  are written out for the non-Windows build of the library, where the separator is the
  slash and there are no volume names.
\<close>

definition Separator :: char where
  "Separator = CHR ''/''"

definition IsPathSeparator :: "char \<Rightarrow> bool" where
  "IsPathSeparator c = (c = Separator)"

text \<open>\<open>filepath.IsAbs\<close>: \<open>strings.HasPrefix(path, "/")\<close>.\<close>

definition IsAbs :: "string \<Rightarrow> bool" where
  "IsAbs path = (case path of [] \<Rightarrow> False | c # _ \<Rightarrow> c = CHR ''/'')"

text \<open>The elements of a path: the pieces between separators.\<close>

fun elements :: "string \<Rightarrow> string list" where
  "elements [] = [[]]"
| "elements (c # cs) =
     (if IsPathSeparator c then [] # elements cs
      else (case elements cs of e # es \<Rightarrow> (c # e) # es | [] \<Rightarrow> [[c]]))"

text \<open>
  One step of the loop of \<open>filepath.Clean\<close>, on the output written so far (a stack of
  elements, the last one first): an empty element and \<open>.\<close> are skipped, \<open>..\<close> removes
  the last real element, is dropped at the root, and is kept in front of a relative path.
\<close>

fun clean_step :: "bool \<Rightarrow> string list \<Rightarrow> string \<Rightarrow> string list" where
  "clean_step rooted out e =
     (if e = [] \<or> e = ''.'' then out
      else if e = ''..'' then
        (case out of
           lst # below \<Rightarrow> if lst = ''..'' then ''..'' # out else below
         | [] \<Rightarrow> if rooted then [] else [''..''])
      else e # out)"

fun join_elements :: "string list \<Rightarrow> string" where
  "join_elements [] = []"
| "join_elements [e] = e"
| "join_elements (e # es) = e @ [Separator] @ join_elements es"

definition Clean :: "string \<Rightarrow> string" where
  "Clean path =
     (if path = [] then ''.''
      else
        (let rooted = IsPathSeparator (hd path);
             out = rev (foldl (clean_step rooted) [] (elements path));
             res = (if rooted then [Separator] else []) @ join_elements out
         in if res = [] then ''.'' else res))"

text \<open>\<open>filepath.Join\<close> of the working directory and a relative path.\<close>

definition Join2 :: "string \<Rightarrow> string \<Rightarrow> string" where
  "Join2 a b =
     (if a = [] \<and> b = [] then []
      else if a = [] then Clean b
      else if b = [] then Clean a
      else Clean (a @ [Separator] @ b))"

text \<open>
  \<open>filepath.Abs\<close>: an absolute path is cleaned; a relative one is joined to the working
  directory, and the call fails when the working directory cannot be read
  (\<open>None\<close> for \<open>os.Getwd\<close>'s error).
\<close>

definition Abs :: "string option \<Rightarrow> string \<Rightarrow> string option" where
  "Abs wd path =
     (if IsAbs path then Some (Clean path)
      else (case wd of None \<Rightarrow> None | Some d \<Rightarrow> Some (Join2 d path)))"

definition ToSlash :: "string \<Rightarrow> string" where
  "ToSlash path =
     (if Separator = CHR ''/'' then path
      else map (\<lambda>c. if c = Separator then CHR ''/'' else c) path)"

definition FromSlash :: "string \<Rightarrow> string" where
  "FromSlash path =
     (if Separator = CHR ''/'' then path
      else map (\<lambda>c. if c = CHR ''/'' then Separator else c) path)"

definition convertToSlash :: "string \<Rightarrow> string" where
  "convertToSlash path = ToSlash path"

definition convertFromSlash :: "string \<Rightarrow> string" where
  "convertFromSlash path = FromSlash path"

definition PathToURI :: "string option \<Rightarrow> string \<Rightarrow> string" where
  "PathToURI wd path =
     (case Abs wd path of
        None \<Rightarrow> ''file://'' @ path
      | Some a \<Rightarrow> ''file://'' @ convertToSlash a)"

definition URIToPath :: "string \<Rightarrow> string" where
  "URIToPath uri =
     (if prefix ''file://'' uri then convertFromSlash (drop 7 uri) else uri)"

section \<open>Node identifiers (util/hash.go)\<close>

subsection \<open>SHA-256, as \<open>crypto/sha256\<close> computes it\<close>

type_synonym u32 = "32 word"

definition rotr :: "nat \<Rightarrow> u32 \<Rightarrow> u32" where
  "rotr n x = (drop_bit n x) OR (push_bit (32 - n) x)"

definition Ch :: "u32 \<Rightarrow> u32 \<Rightarrow> u32 \<Rightarrow> u32" where
  "Ch x y z = (x AND y) XOR ((NOT x) AND z)"

definition Maj :: "u32 \<Rightarrow> u32 \<Rightarrow> u32 \<Rightarrow> u32" where
  "Maj x y z = (x AND y) XOR (x AND z) XOR (y AND z)"

definition bsig0 :: "u32 \<Rightarrow> u32" where
  "bsig0 x = rotr 2 x XOR rotr 13 x XOR rotr 22 x"

definition bsig1 :: "u32 \<Rightarrow> u32" where
  "bsig1 x = rotr 6 x XOR rotr 11 x XOR rotr 25 x"

definition ssig0 :: "u32 \<Rightarrow> u32" where
  "ssig0 x = rotr 7 x XOR rotr 18 x XOR drop_bit 3 x"

definition ssig1 :: "u32 \<Rightarrow> u32" where
  "ssig1 x = rotr 17 x XOR rotr 19 x XOR drop_bit 10 x"

text \<open>
  The round constants (the first 32 bits of the fractional parts of the cube roots of the
  first 64 primes) and the initial hash value (of the square roots of the first 8 primes),
  in decimal.
\<close>

definition K256 :: "u32 list" where
  "K256 =
    [1116352408, 1899447441, 3049323471, 3921009573, 961987163, 1508970993,
     2453635748, 2870763221, 3624381080, 310598401, 607225278, 1426881987,
     1925078388, 2162078206, 2614888103, 3248222580, 3835390401, 4022224774,
     264347078, 604807628, 770255983, 1249150122, 1555081692, 1996064986,
     2554220882, 2821834349, 2952996808, 3210313671, 3336571891, 3584528711,
     113926993, 338241895, 666307205, 773529912, 1294757372, 1396182291,
     1695183700, 1986661051, 2177026350, 2456956037, 2730485921, 2820302411,
     3259730800, 3345764771, 3516065817, 3600352804, 4094571909, 275423344,
     430227734, 506948616, 659060556, 883997877, 958139571, 1322822218,
     1537002063, 1747873779, 1955562222, 2024104815, 2227730452, 2361852424,
     2428436474, 2756734187, 3204031479, 3329325298]"

definition init256 :: "u32 list" where
  "init256 =
    [1779033703, 3144134277, 1013904242, 2773480762, 1359893119, 2600822924,
     528734635, 1541459225]"

text \<open>Big-endian reading and writing of words.\<close>

definition be_word :: "string \<Rightarrow> u32" where
  "be_word cs = foldl (\<lambda>acc c. push_bit 8 acc OR of_char c) 0 cs"

definition be_bytes :: "u32 \<Rightarrow> string" where
  "be_bytes w = map (\<lambda>i. char_of (unat (drop_bit (8 * i) w))) [3, 2, 1, 0]"

definition be_length :: "nat \<Rightarrow> string" where
  "be_length n = map (\<lambda>i. char_of (n div 2 ^ (8 * i))) [7, 6, 5, 4, 3, 2, 1, 0]"

fun chunks :: "nat \<Rightarrow> 'a list \<Rightarrow> 'a list list" where
  "chunks n xs = (if n = 0 \<or> xs = [] then [] else take n xs # chunks n (drop n xs))"

text \<open>
  Padding: the byte \<open>0x80\<close>, zero bytes up to 56 modulo 64, and the length of the
  message in bits as a 64-bit big-endian number.
\<close>

definition sha_pad :: "string \<Rightarrow> string" where
  "sha_pad msg =
     msg @ [char_of (128::nat)]
         @ replicate ((64 - (length msg + 9) mod 64) mod 64) (char_of (0::nat))
         @ be_length ((8 * length msg) mod 2 ^ 64)"

text \<open>The message schedule: 16 words of the block, extended to 64.\<close>

fun extend :: "nat \<Rightarrow> u32 list \<Rightarrow> u32 list" where
  "extend 0 w = w"
| "extend (Suc k) w =
     (let i = length w
      in extend k (w @ [w ! (i - 16) + ssig0 (w ! (i - 15)) + w ! (i - 7) + ssig1 (w ! (i - 2))]))"

definition schedule :: "string \<Rightarrow> u32 list" where
  "schedule block = extend 48 (map be_word (chunks 4 block))"

text \<open>One round on the eight working variables, and the 64 rounds of a block.\<close>

fun sha_round :: "u32 list \<Rightarrow> u32 \<times> u32 \<Rightarrow> u32 list" where
  "sha_round [a, b, c, d, e, f, g, h] (k, w) =
     (let t1 = h + bsig1 e + Ch e f g + k + w;
          t2 = bsig0 a + Maj a b c
      in [t1 + t2, a, b, c, d + t1, e, f, g])"
| "sha_round s _ = s"

definition compress :: "u32 list \<Rightarrow> string \<Rightarrow> u32 list" where
  "compress hs block = map2 (+) hs (foldl sha_round hs (zip K256 (schedule block)))"

definition Sum256 :: "string \<Rightarrow> string" where
  "Sum256 msg = concat (map be_bytes (foldl compress init256 (chunks 64 (sha_pad msg))))"

subsection \<open>\<open>hex.EncodeToString\<close> and \<open>GenerateNodeID\<close>\<close>

definition hextable :: string where
  "hextable = ''0123456789abcdef''"

definition hex_byte :: "char \<Rightarrow> string" where
  "hex_byte c = [hextable ! ((of_char c :: nat) div 16), hextable ! ((of_char c :: nat) mod 16)]"

definition EncodeToString :: "string \<Rightarrow> string" where
  "EncodeToString src = concat (map hex_byte src)"

text \<open>\<open>fmt.Sprintf("%s:%s", filePath, symbolName)\<close>.\<close>

definition node_input :: "string \<Rightarrow> string \<Rightarrow> string" where
  "node_input filePath symbolName = filePath @ '':'' @ symbolName"

definition GenerateNodeID :: "string \<Rightarrow> string \<Rightarrow> string" where
  "GenerateNodeID filePath symbolName = EncodeToString (Sum256 (node_input filePath symbolName))"

section \<open>Errors\<close>

text \<open>
  Go errors as values.  \<open>Wrapped msg e\<close> is \<open>fmt.Errorf(msg + ": %w", e)\<close> (or
  \<open>%v\<close> for \<open>%w\<close>: the text is the same); \<open>Failure msg\<close> is an error made by
  \<open>fmt.Errorf\<close> or \<open>errors.New\<close> from a message alone, or reported by the operating
  system or a library; \<open>ErrSyntax s\<close> and \<open>ErrRange s\<close> are the errors of
  \<open>strconv.Atoi\<close> on the input \<open>s\<close>; \<open>Panic\<close> is a run-time panic.
\<close>

datatype error =
    Canceled
  | DeadlineExceeded
  | EOF
  | ErrUnexpectedEOF
  | ErrTooLong
  | ErrShortWrite
  | ErrSyntax string
  | ErrRange string
  | Failure string
  | HTTPError nat string
  | Wrapped string error
  | RetriesExhausted nat "error option"
  | Panic string

section \<open>Downloading with retries (\<open>downloadFile\<close>)\<close>

text \<open>
  What one attempt meets: \<open>http.NewRequestWithContext\<close> fails, \<open>client.Do\<close> fails,
  or a response arrives with a status code and text, the result of \<open>dest.Seek(0, 0)\<close>,
  the body, and the result of \<open>io.Copy\<close> (the number of bytes copied before an error).
\<close>

datatype fetch =
    RequestFails error
  | DoFails error
  | Response nat string "error option" string "(nat \<times> error) option"

text \<open>What the \<open>select\<close> of a backoff sees first: the timer or the context.\<close>

datatype wake = TimerFired | ContextDone error

record net =
  fetches :: "nat \<Rightarrow> fetch"
  wakes :: "nat \<Rightarrow> wake"

datatype event = Get nat | Sleep int

definition Second :: int where
  "Second = 1000000000"

definition StatusOK :: nat where
  "StatusOK = 200"

definition maxRetries :: nat where
  "maxRetries = 3"

text \<open>Writing at offset 0 of a file: the bytes beyond what is written stay.\<close>

definition write_at_start :: "string \<Rightarrow> string \<Rightarrow> string" where
  "write_at_start new old = new @ drop (length new) old"

text \<open>
  The body of the loop after the backoff: \<open>Inl e\<close> is \<open>lastErr = e; continue\<close>,
  \<open>Inr r\<close> is \<open>return r\<close>.  The second component is the destination file.
\<close>

fun attempt_once :: "fetch \<Rightarrow> string \<Rightarrow> (error + error option) \<times> string" where
  "attempt_once (RequestFails e) dest = (Inl e, dest)"
| "attempt_once (DoFails e) dest = (Inl e, dest)"
| "attempt_once (Response code status seek body copy) dest =
     (if code \<noteq> StatusOK then (Inl (HTTPError code status), dest)
      else (case seek of
              Some e \<Rightarrow> (Inr (Some e), dest)
            | None \<Rightarrow>
               (case copy of
                  Some (n, e) \<Rightarrow> (Inl e, write_at_start (take n body) dest)
                | None \<Rightarrow> (Inr None, write_at_start body dest))))"

record download =
  result :: "error option"
  dest_file :: string
  events :: "event list"

function download_loop :: "net \<Rightarrow> nat \<Rightarrow> error option \<Rightarrow> string \<Rightarrow> event list \<Rightarrow> download" where
  "download_loop w attempt lastErr dest log =
     (if attempt \<le> maxRetries then
        (let backoff = int (attempt * attempt) * Second;
             log1 = (if attempt > 1 then log @ [Sleep backoff] else log);
             woken = (if attempt > 1 then wakes w attempt else TimerFired)
         in case woken of
              ContextDone e \<Rightarrow> \<lparr>result = Some e, dest_file = dest, events = log1\<rparr>
            | TimerFired \<Rightarrow>
               (case attempt_once (fetches w attempt) dest of
                  (Inl e, dest') \<Rightarrow> download_loop w (attempt + 1) (Some e) dest' (log1 @ [Get attempt])
                | (Inr r, dest') \<Rightarrow> \<lparr>result = r, dest_file = dest', events = log1 @ [Get attempt]\<rparr>))
      else \<lparr>result = Some (RetriesExhausted maxRetries lastErr), dest_file = dest, events = log\<rparr>)"
  by pat_completeness auto
termination
  by (relation "measure (\<lambda>(w, attempt, lastErr, dest, log). maxRetries + 1 - attempt)") auto

declare download_loop.simps [simp del]

definition downloadFile :: "net \<Rightarrow> string \<Rightarrow> download" where
  "downloadFile w dest = download_loop w 1 None dest []"

text \<open>The error an attempt leaves in \<open>lastErr\<close> when it ends in \<open>continue\<close>.\<close>

definition retry_error :: "fetch \<Rightarrow> error option" where
  "retry_error f = (case fst (attempt_once f []) of Inl e \<Rightarrow> Some e | Inr _ \<Rightarrow> None)"

text \<open>
  Three attempts that all end in \<open>continue\<close>: a refused connection, a 503 response and
  a body that breaks off; with a context that stays alive, one that is cancelled during
  the first backoff, and one whose deadline passes during the second.
\<close>

definition flaky :: "nat \<Rightarrow> fetch" where
  "flaky k =
     (if k = 1 then DoFails (Failure ''connection refused'')
      else if k = 2 then Response 503 ''503 Service Unavailable'' None [] None
      else Response 200 ''200 OK'' None ''abc'' (Some (1, ErrUnexpectedEOF)))"

definition net_all_fail :: net where
  "net_all_fail = \<lparr>fetches = flaky, wakes = (\<lambda>k. TimerFired)\<rparr>"

definition net_cancel_2 :: net where
  "net_cancel_2 =
     \<lparr>fetches = flaky, wakes = (\<lambda>k. if k = 2 then ContextDone Canceled else TimerFired)\<rparr>"

definition net_cancel_3 :: net where
  "net_cancel_3 =
     \<lparr>fetches = flaky, wakes = (\<lambda>k. if k = 3 then ContextDone DeadlineExceeded else TimerFired)\<rparr>"

section \<open>Installing language servers\<close>

subsection \<open>The metadata table (internal/downloader/metadata.go)\<close>

datatype resolver = GitHubResolver string string string | NPMResolver string

text \<open>
  Go maps from strings are association lists read with \<^const>\<open>map_of\<close>; a missing key
  reads as the empty string where the source reads the map without the \<open>ok\<close> flag.
\<close>

record LSPServerMetadata =
  LSPName :: string
  Version :: string
  BinaryName :: string
  DownloadURLs :: "(string \<times> string) list"
  Checksums :: "(string \<times> string) list"
  IsArchive :: bool
  ArchivePath :: string
  VersionResolver :: "resolver option"

definition meta_go :: LSPServerMetadata where
  "meta_go =
     \<lparr>LSPName = ''gopls'', Version = ''v0.21.1'', BinaryName = ''gopls'',
      DownloadURLs =
        [(''linux-amd64'', ''https://github.com/golang/tools/releases/download/gopls/{version}/gopls-{version}-linux-amd64.tar.gz''),
         (''linux-arm64'', ''https://github.com/golang/tools/releases/download/gopls/{version}/gopls-{version}-linux-arm64.tar.gz''),
         (''darwin-amd64'', ''https://github.com/golang/tools/releases/download/gopls/{version}/gopls-{version}-darwin-amd64.tar.gz''),
         (''darwin-arm64'', ''https://github.com/golang/tools/releases/download/gopls/{version}/gopls-{version}-darwin-arm64.tar.gz''),
         (''windows-amd64'', ''https://github.com/golang/tools/releases/download/gopls/{version}/gopls-{version}-windows-amd64.zip'')],
      Checksums =
        [(''linux-amd64'', ''''),
         (''linux-arm64'', ''''),
         (''darwin-amd64'', ''''),
         (''darwin-arm64'', ''''),
         (''windows-amd64'', '''')],
      IsArchive = True, ArchivePath = ''gopls'',
      VersionResolver = Some (GitHubResolver ''golang'' ''tools'' '''')\<rparr>"

definition meta_python :: LSPServerMetadata where
  "meta_python =
     \<lparr>LSPName = ''pyright'', Version = ''1.1.408'', BinaryName = ''pyright-langserver'',
      DownloadURLs =
        [(''linux-amd64'', ''https://registry.npmjs.org/pyright/-/pyright-{version}.tgz''),
         (''linux-arm64'', ''https://registry.npmjs.org/pyright/-/pyright-{version}.tgz''),
         (''darwin-amd64'', ''https://registry.npmjs.org/pyright/-/pyright-{version}.tgz''),
         (''darwin-arm64'', ''https://registry.npmjs.org/pyright/-/pyright-{version}.tgz''),
         (''windows-amd64'', ''https://registry.npmjs.org/pyright/-/pyright-{version}.tgz'')],
      Checksums =
        [(''linux-amd64'', ''''),
         (''linux-arm64'', ''''),
         (''darwin-amd64'', ''''),
         (''darwin-arm64'', ''''),
         (''windows-amd64'', '''')],
      IsArchive = True, ArchivePath = ''package/langserver.index.js'',
      VersionResolver = Some (NPMResolver ''pyright'')\<rparr>"

definition meta_typescript :: LSPServerMetadata where
  "meta_typescript =
     \<lparr>LSPName = ''typescript-language-server'', Version = ''5.1.3'', BinaryName = ''typescript-language-server'',
      DownloadURLs =
        [(''linux-amd64'', ''https://registry.npmjs.org/typescript-language-server/-/typescript-language-server-{version}.tgz''),
         (''linux-arm64'', ''https://registry.npmjs.org/typescript-language-server/-/typescript-language-server-{version}.tgz''),
         (''darwin-amd64'', ''https://registry.npmjs.org/typescript-language-server/-/typescript-language-server-{version}.tgz''),
         (''darwin-arm64'', ''https://registry.npmjs.org/typescript-language-server/-/typescript-language-server-{version}.tgz''),
         (''windows-amd64'', ''https://registry.npmjs.org/typescript-language-server/-/typescript-language-server-{version}.tgz'')],
      Checksums =
        [(''linux-amd64'', ''''),
         (''linux-arm64'', ''''),
         (''darwin-amd64'', ''''),
         (''darwin-arm64'', ''''),
         (''windows-amd64'', '''')],
      IsArchive = True, ArchivePath = ''package/lib/cli.mjs'',
      VersionResolver = Some (NPMResolver ''typescript-language-server'')\<rparr>"

definition meta_lua :: LSPServerMetadata where
  "meta_lua =
     \<lparr>LSPName = ''lua-language-server'', Version = ''3.17.1'', BinaryName = ''lua-language-server'',
      DownloadURLs =
        [(''linux-amd64'', ''https://github.com/LuaLS/lua-language-server/releases/download/{version}/lua-language-server-{version}-linux-x64.tar.gz''),
         (''linux-arm64'', ''https://github.com/LuaLS/lua-language-server/releases/download/{version}/lua-language-server-{version}-linux-arm64.tar.gz''),
         (''darwin-amd64'', ''https://github.com/LuaLS/lua-language-server/releases/download/{version}/lua-language-server-{version}-darwin-x64.tar.gz''),
         (''darwin-arm64'', ''https://github.com/LuaLS/lua-language-server/releases/download/{version}/lua-language-server-{version}-darwin-arm64.tar.gz''),
         (''windows-amd64'', ''https://github.com/LuaLS/lua-language-server/releases/download/{version}/lua-language-server-{version}-win32-x64.zip'')],
      Checksums =
        [(''linux-amd64'', ''''),
         (''linux-arm64'', ''''),
         (''darwin-amd64'', ''''),
         (''darwin-arm64'', ''''),
         (''windows-amd64'', '''')],
      IsArchive = True, ArchivePath = ''bin/lua-language-server'',
      VersionResolver = Some (GitHubResolver ''LuaLS'' ''lua-language-server'' '''')\<rparr>"

definition meta_zig :: LSPServerMetadata where
  "meta_zig =
     \<lparr>LSPName = ''zls'', Version = ''0.15.1'', BinaryName = ''zls'',
      DownloadURLs =
        [(''linux-amd64'', ''https://github.com/zigtools/zls/releases/download/{version}/zls-linux-x86_64-{version}.tar.gz''),
         (''linux-arm64'', ''https://github.com/zigtools/zls/releases/download/{version}/zls-linux-aarch64-{version}.tar.gz''),
         (''darwin-amd64'', ''https://github.com/zigtools/zls/releases/download/{version}/zls-macos-x86_64-{version}.tar.gz''),
         (''darwin-arm64'', ''https://github.com/zigtools/zls/releases/download/{version}/zls-macos-aarch64-{version}.tar.gz''),
         (''windows-amd64'', ''https://github.com/zigtools/zls/releases/download/{version}/zls-windows-x86_64-{version}.zip'')],
      Checksums =
        [(''linux-amd64'', ''''),
         (''linux-arm64'', ''''),
         (''darwin-amd64'', ''''),
         (''darwin-arm64'', ''''),
         (''windows-amd64'', '''')],
      IsArchive = True, ArchivePath = ''zls'',
      VersionResolver = Some (GitHubResolver ''zigtools'' ''zls'' '''')\<rparr>"

definition lspMetadata :: "(string \<times> LSPServerMetadata) list" where
  "lspMetadata =
     [(''go'', meta_go),
      (''python'', meta_python),
      (''typescript'', meta_typescript),
      (''lua'', meta_lua),
      (''zig'', meta_zig)]"

text \<open>\<open>strings.ReplaceAll\<close> for a non-empty \<open>old\<close>.\<close>

function ReplaceAll :: "string \<Rightarrow> string \<Rightarrow> string \<Rightarrow> string" where
  "ReplaceAll s old new =
     (if s = [] \<or> old = [] then s
      else if prefix old s then new @ ReplaceAll (drop (length old) s) old new
      else hd s # ReplaceAll (tl s) old new)"
  by pat_completeness auto
termination
  by (relation "measure (\<lambda>(s, old, new). length s)") auto

declare ReplaceAll.simps [simp del]

text \<open>
  \<open>GetLSPMetadata\<close>: the table's entry with the version the resolver reports (the
  pinned version when there is no resolver or it fails) and that version put into the
  download URLs.  \<open>resolve\<close> stands for the network behind \<open>ResolveLatestVersion\<close>.
\<close>

definition GetLSPMetadata :: "(resolver \<Rightarrow> error + string) \<Rightarrow> string \<Rightarrow> error + LSPServerMetadata" where
  "GetLSPMetadata resolve lang =
     (case map_of lspMetadata lang of
        None \<Rightarrow> Inl (Failure (''no metadata for language: '' @ lang))
      | Some metadata \<Rightarrow>
          (let resolved_version =
                 (case VersionResolver metadata of
                    None \<Rightarrow> Version metadata
                  | Some r \<Rightarrow>
                      (case resolve r of
                         Inl e \<Rightarrow> Version metadata
                       | Inr latestVersion \<Rightarrow> latestVersion))
           in Inr (metadata
                \<lparr>Version := resolved_version,
                 DownloadURLs :=
                   map (\<lambda>(platform, urlTemplate).
                          (platform, ReplaceAll urlTemplate ''{version}'' resolved_version))
                     (DownloadURLs metadata)\<rparr>)))"

text \<open>\<open>downloader.GetPlatformKey\<close>, from \<open>runtime.GOOS\<close> and \<open>runtime.GOARCH\<close>.\<close>

definition GetPlatformKey :: "string \<Rightarrow> string \<Rightarrow> string" where
  "GetPlatformKey goos goarch = goos @ ''-'' @ goarch"

text \<open>The checksum configured for a platform: \<open>metadata.Checksums[platform]\<close>.\<close>

definition checksum_for :: "LSPServerMetadata \<Rightarrow> string \<Rightarrow> string" where
  "checksum_for metadata platform =
     (case map_of (Checksums metadata) platform of None \<Rightarrow> [] | Some c \<Rightarrow> c)"

subsection \<open>\<open>verifyChecksum\<close> and \<open>downloadAndInstall\<close>\<close>

text \<open>
  \<open>verifyChecksum\<close>: the file is opened and read (\<open>Inl\<close> when either fails), and the
  hexadecimal SHA-256 digest of its bytes is compared with the expected one.
\<close>

definition verifyChecksum :: "error + string \<Rightarrow> string \<Rightarrow> error option" where
  "verifyChecksum file expectedChecksum =
     (case file of
        Inl e \<Rightarrow> Some e
      | Inr bytes \<Rightarrow>
          (let actualChecksum = EncodeToString (Sum256 bytes)
           in if actualChecksum \<noteq> expectedChecksum
              then Some (Failure (''checksum mismatch: expected '' @ expectedChecksum
                                    @ '', got '' @ actualChecksum))
              else None))"

text \<open>
  What the file system and the network answer during an install, and the calls an install
  makes, in order.
\<close>

record install_env =
  mkdir_all :: "error option"
  create_temp :: "error option"
  network :: net
  read_back :: "string \<Rightarrow> error + string"
  extract_archive :: "string \<Rightarrow> error option"
  copy_file :: "error option"
  chmod :: "error option"

datatype step =
    MkdirAll
  | CreateTemp
  | DownloadFile string
  | VerifyChecksum string
  | ExtractArchive
  | CopyFile
  | Chmod
  | WritePackageMetadata string string string string
  | SymlinkCurrent
  | SymlinkBinary

text \<open>
  An install is a sequence of calls, each followed by
  \<open>if err != nil { return fmt.Errorf("...: %w", err) }\<close>.  \<open>call\<close> is one such
  call with its outcome, \<open>and_then\<close> runs the rest when no error was returned.
\<close>

type_synonym run = "error option \<times> step list"

definition call :: "step \<Rightarrow> string \<Rightarrow> error option \<Rightarrow> run" where
  "call st msg outcome =
     (case outcome of Some e \<Rightarrow> (Some (Wrapped msg e), [st]) | None \<Rightarrow> (None, [st]))"

definition and_then :: "run \<Rightarrow> run \<Rightarrow> run" where
  "and_then first rest =
     (case first of
        (Some e, s) \<Rightarrow> (Some e, s)
      | (None, s) \<Rightarrow> (fst rest, s @ snd rest))"

text \<open>The part of \<open>downloadAndInstall\<close> after the checksum: extract, or copy and chmod.\<close>

definition place_binary :: "install_env \<Rightarrow> LSPServerMetadata \<Rightarrow> string \<Rightarrow> run" where
  "place_binary env metadata bytes =
     (if IsArchive metadata then
        call ExtractArchive ''extraction failed'' (extract_archive env bytes)
      else
        and_then (call CopyFile ''failed to copy binary'' (copy_file env))
                 (call Chmod ''failed to make binary executable'' (chmod env)))"

text \<open>The part after the download: \<open>if checksum := metadata.Checksums[platform]; checksum != ""\<close>.\<close>

definition verify_if_provided ::
  "install_env \<Rightarrow> LSPServerMetadata \<Rightarrow> string \<Rightarrow> string \<Rightarrow> run" where
  "verify_if_provided env metadata platform bytes =
     (let checksum = checksum_for metadata platform
      in if checksum \<noteq> [] then
           call (VerifyChecksum checksum) ''checksum verification failed''
             (verifyChecksum (read_back env bytes) checksum)
         else (None, []))"

definition downloadAndInstall ::
  "install_env \<Rightarrow> string \<Rightarrow> string \<Rightarrow> LSPServerMetadata \<Rightarrow> run" where
  "downloadAndInstall env platform lang metadata =
     (case map_of (DownloadURLs metadata) platform of
        None \<Rightarrow> (Some (Failure (''no download URL for platform: '' @ platform)), [])
      | Some downloadURL \<Rightarrow>
         (let d = downloadFile (network env) []
          in and_then (call MkdirAll ''failed to create version dir'' (mkdir_all env))
            (and_then (call CreateTemp ''failed to create temp file'' (create_temp env))
            (and_then (call (DownloadFile downloadURL) ''download failed'' (result d))
            (and_then (verify_if_provided env metadata platform (dest_file d))
                      (place_binary env metadata (dest_file d)))))))"

subsection \<open>The package manager's \<open>Install\<close>\<close>

text \<open>\<open>pkgmgr.GetPlatformKey\<close> renames the architecture \<open>amd64\<close> to \<open>x86_64\<close>.\<close>

definition pkgmgr_GetPlatformKey :: "string \<Rightarrow> string \<Rightarrow> string" where
  "pkgmgr_GetPlatformKey goos goarch =
     goos @ ''-'' @ (if goarch = ''amd64'' then ''x86_64''
                     else if goarch = ''arm64'' then ''arm64'' else goarch)"

text \<open>
  \<open>Install\<close> reads its \<open>*LSPMetadata\<close> argument through the fields \<open>DownloadURLs\<close>,
  \<open>Version\<close>, \<open>Checksums\<close>, \<open>IsArchive\<close>, \<open>BinaryName\<close> and \<open>ArchivePath\<close>, which the
  downloader's \<open>LSPServerMetadata\<close> has under the same names: one record serves both.
\<close>

record pkg_env =
  files :: install_env
  is_installed :: bool
  write_metadata :: "error option"
  symlink_current :: "error option"
  binary_path :: "error option"
  create_symlink :: "error option"

text \<open>
  The end of \<open>Install\<close>: the package's metadata file and the two links.  The error
  of \<open>GetBinaryPath\<close> is returned as it is.
\<close>

definition register_package ::
  "pkg_env \<Rightarrow> string \<Rightarrow> LSPServerMetadata \<Rightarrow> string \<Rightarrow> string \<Rightarrow> run" where
  "register_package env packageName metadata downloadURL checksum =
     and_then (call (WritePackageMetadata packageName (Version metadata) downloadURL checksum)
                 ''failed to write metadata'' (write_metadata env))
    (and_then (call SymlinkCurrent ''failed to create current version link'' (symlink_current env))
    (and_then (binary_path env, [])
              (call SymlinkBinary ''failed to create binary symlink'' (create_symlink env))))"

definition Install :: "pkg_env \<Rightarrow> string \<Rightarrow> string \<Rightarrow> LSPServerMetadata \<Rightarrow> run" where
  "Install env platform packageName metadata =
     (if is_installed env then (None, [])
      else
       (case map_of (DownloadURLs metadata) platform of
          None \<Rightarrow> (Some (Failure (''no download URL for platform: '' @ platform)), [])
        | Some downloadURL \<Rightarrow>
           (let d = downloadFile (network (files env)) []
            in and_then (call MkdirAll ''failed to create version directory'' (mkdir_all (files env)))
              (and_then (call CreateTemp ''failed to create temp file'' (create_temp (files env)))
              (and_then (call (DownloadFile downloadURL) ''download failed'' (result d))
              (and_then (verify_if_provided (files env) metadata platform (dest_file d))
              (and_then (place_binary (files env) metadata (dest_file d))
                        (register_package env packageName metadata downloadURL
                           (checksum_for metadata platform)))))))))"

text \<open>Whether an install calls \<open>verifyChecksum\<close>.\<close>

fun is_verify :: "step \<Rightarrow> bool" where
  "is_verify (VerifyChecksum c) = True"
| "is_verify _ = False"

definition verifies :: "run \<Rightarrow> bool" where
  "verifies r = list_ex is_verify (snd r)"

text \<open>
  An install where every call succeeds and the download delivers the bytes \<open>abc\<close> at
  the first attempt; a metadata entry with a checksum; and the five platforms of the table.
\<close>

definition net_ok :: net where
  "net_ok = \<lparr>fetches = (\<lambda>k. Response 200 ''200 OK'' None ''abc'' None),
             wakes = (\<lambda>k. TimerFired)\<rparr>"

definition env_ok :: install_env where
  "env_ok = \<lparr>mkdir_all = None, create_temp = None, network = net_ok,
             read_back = Inr, extract_archive = (\<lambda>bytes. None),
             copy_file = None, chmod = None\<rparr>"

definition pkg_env_ok :: pkg_env where
  "pkg_env_ok = \<lparr>files = env_ok, is_installed = False, write_metadata = None,
                 symlink_current = None, binary_path = None, create_symlink = None\<rparr>"

definition meta_pinned :: LSPServerMetadata where
  "meta_pinned =
     \<lparr>LSPName = ''tool'', Version = ''1.0'', BinaryName = ''tool'',
      DownloadURLs = [(''linux-amd64'', ''https://example.org/tool-1.0.tar.gz'')],
      Checksums = [(''linux-amd64'', ''00'')],
      IsArchive = True, ArchivePath = ''tool'', VersionResolver = None\<rparr>"

definition no_resolver :: "resolver \<Rightarrow> error + string" where
  "no_resolver r = Inl (Failure ''offline'')"

section \<open>Formatting (\<open>strconv\<close>, \<open>fmt\<close>)\<close>

definition digit_char :: "nat \<Rightarrow> char" where
  "digit_char d = ''0123456789'' ! d"

text \<open>The decimal digits of a natural number, as \<open>%d\<close> prints them.\<close>

function digits :: "nat \<Rightarrow> string" where
  "digits n = (if n < 10 then [digit_char n] else digits (n div 10) @ [digit_char (n mod 10)])"
  by pat_completeness auto
termination
  by (relation "measure id") auto

declare digits.simps [simp del]

definition Itoa :: "int \<Rightarrow> string" where
  "Itoa i = (if i < 0 then CHR ''-'' # digits (nat (- i)) else digits (nat i))"

text \<open>
  \<open>err.Error()\<close>: the text of an error, which \<open>%v\<close> prints.  (The input of
  \<open>strconv.Atoi\<close> is quoted as it stands; \<open>strconv.Quote\<close> would escape the
  characters that do not print.)
\<close>

fun Error :: "error \<Rightarrow> string" where
  "Error Canceled = ''context canceled''"
| "Error DeadlineExceeded = ''context deadline exceeded''"
| "Error EOF = ''EOF''"
| "Error ErrUnexpectedEOF = ''unexpected EOF''"
| "Error ErrTooLong = ''bufio.Scanner: token too long''"
| "Error ErrShortWrite = ''short write''"
| "Error (ErrSyntax input) = ''strconv.Atoi: parsing '' @ [CHR 0x22] @ input @ [CHR 0x22] @ '': invalid syntax''"
| "Error (ErrRange input) = ''strconv.Atoi: parsing '' @ [CHR 0x22] @ input @ [CHR 0x22] @ '': value out of range''"
| "Error (Failure msg) = msg"
| "Error (HTTPError code status) = ''HTTP '' @ Itoa (int code) @ '': '' @ status"
| "Error (Wrapped msg e) = msg @ '': '' @ Error e"
| "Error (RetriesExhausted n None) =
     ''download failed after '' @ Itoa (int n) @ '' attempts: %!w(<nil>)''"
| "Error (RetriesExhausted n (Some e)) =
     ''download failed after '' @ Itoa (int n) @ '' attempts: '' @ Error e"
| "Error (Panic msg) = ''panic: '' @ msg"

section \<open>The graph model and the server (tools of the index coordinator)\<close>

record Node =
  ID :: string
  Name :: string
  Kind :: string
  FilePath :: string
  LineStart :: int
  LineEnd :: int
  ColStart :: int
  ColEnd :: int
  SymbolURI :: string

record Edge =
  SourceID :: string
  TargetID :: string
  Relation :: string

datatype IndexStatus =
  IndexStatusIdle | IndexStatusInProgress | IndexStatusReady | IndexStatusFailed

text \<open>
  The calls a tool makes on the graph store, in order.  The store itself is outside the
  tools' file; what its calls return is an input of each tool.
\<close>

datatype store_call =
    BulkUpsertNodes "Node list"
  | PruneStaleFiles "string list"
  | BulkUpsertEdges "Edge list"
  | GetSymbolsInFile string
  | FindImpact string
  | GetSymbolLocation string

text \<open>
  The server's state: the index status with its last error, whether the channel
  \<open>indexReady\<close> is closed, the calls made on the store so far, and the warnings
  written to \<open>os.Stderr\<close>.
\<close>

record Server =
  indexStatus :: IndexStatus
  indexError :: "error option"
  indexReady :: bool
  store_calls :: "store_call list"
  stderr :: "string list"

text \<open>
  Modelled from the spec: \<open>setIndexStatus\<close>, \<open>GetIndexStatus\<close> and \<open>WaitForIndex\<close> are
  methods of the server that the tools call and whose code is not in the tools' file.
  The spec: the status is one of idle, in-progress, ready, failed, with an optional
  last error; the readiness signal is a one-shot broadcast latched when the status becomes
  ready; it supports \<open>wait(ctx)\<close> with cancellation.
\<close>

definition setIndexStatus :: "IndexStatus \<Rightarrow> error option \<Rightarrow> Server \<Rightarrow> Server" where
  "setIndexStatus status err s =
     s\<lparr>indexStatus := status, indexError := err,
       indexReady := (if status = IndexStatusReady then True else indexReady s)\<rparr>"

definition GetIndexStatus :: "Server \<Rightarrow> IndexStatus \<times> error option" where
  "GetIndexStatus s = (indexStatus s, indexError s)"

text \<open>
  Time is counted in nanoseconds from the start of a call.  A context is the moment it is
  done, with its error, if it ever is; \<open>context.WithTimeout\<close> adds a deadline.
\<close>

type_synonym ctx = "(int \<times> error) option"

definition WithTimeout :: "ctx \<Rightarrow> int \<Rightarrow> ctx" where
  "WithTimeout parent timeout =
     (case parent of
        None \<Rightarrow> Some (timeout, DeadlineExceeded)
      | Some (t, e) \<Rightarrow> if t \<le> timeout then Some (t, e) else Some (timeout, DeadlineExceeded))"

text \<open>
  Modelled from the spec: \<open>WaitForIndex\<close> waits for the readiness latch or for the
  context, whichever comes first.  \<open>latched_at\<close> is the moment the latch is released
  (0 when it already is, \<open>None\<close> when it never is).  The result is the time waited and
  the error; \<open>None\<close> when the call never returns.
\<close>

definition WaitForIndex :: "int option \<Rightarrow> ctx \<Rightarrow> (int \<times> error option) option" where
  "WaitForIndex latched_at c =
     (case (latched_at, c) of
        (None, None) \<Rightarrow> None
      | (Some t, None) \<Rightarrow> Some (t, None)
      | (None, Some (d, e)) \<Rightarrow> Some (d, Some e)
      | (Some t, Some (d, e)) \<Rightarrow> if t \<le> d then Some (t, None) else Some (d, Some e))"

subsection \<open>The \<open>index\<close> tool\<close>

text \<open>
  A tool's result.  A JSON result keeps the value that \<open>json.MarshalIndent\<close> is given,
  not its text.
\<close>

record SimpleNode =
  simple_name :: string
  simple_kind :: string
  simple_range :: string

record ImpactNode =
  impact_name :: string
  impact_file_path :: string
  impact_kind :: string

record SymbolInfo =
  node :: Node
  source :: string

datatype tool_result =
    errorResult string
  | textResult string
  | symbolsResult "SimpleNode list"
  | impactResult "ImpactNode list"
  | infoResult "SymbolInfo list"

text \<open>
  What one run of the index meets: the results of the scanner, of the store's three
  calls and of the enricher, and the elapsed time as \<open>%.2f\<close> prints it.
\<close>

record index_env =
  scan :: "error + Node list"
  upsert_nodes :: "error option"
  prune :: "error option"
  enrich :: "error + Edge list"
  upsert_edges :: "error option"
  seconds :: string

text \<open>The valid files: the file paths of the nodes, each once, in order of first occurrence.\<close>

fun collect_valid_files :: "string list \<Rightarrow> Node list \<Rightarrow> string list" where
  "collect_valid_files validFileList [] = validFileList"
| "collect_valid_files validFileList (n # nodes) =
     (if FilePath n \<in> set validFileList then collect_valid_files validFileList nodes
      else collect_valid_files (validFileList @ [FilePath n]) nodes)"

definition log_call :: "store_call \<Rightarrow> Server \<Rightarrow> Server" where
  "log_call c s = s\<lparr>store_calls := store_calls s @ [c]\<rparr>"

definition warn :: "string \<Rightarrow> Server \<Rightarrow> Server" where
  "warn line s = s\<lparr>stderr := stderr s @ [line]\<rparr>"

text \<open>\<open>PruneStaleFiles\<close> in the pipeline: its error is written to \<open>os.Stderr\<close>, no more.\<close>

definition prune_stale :: "index_env \<Rightarrow> string list \<Rightarrow> Server \<Rightarrow> Server" where
  "prune_stale env validFileList s =
     (let s' = log_call (PruneStaleFiles validFileList) s
      in case prune env of
           Some err \<Rightarrow> warn (''Warning: Failed to prune stale files: '' @ Error err) s'
         | None \<Rightarrow> s')"

definition index_summary :: "Node list \<Rightarrow> Edge list \<Rightarrow> string \<Rightarrow> string" where
  "index_summary nodes edges secs =
     ''Indexed '' @ Itoa (int (length nodes)) @ '' nodes and ''
       @ Itoa (int (length edges)) @ '' edges in '' @ secs @ ''s''"

text \<open>The tool's handler when nothing else runs between its statements.\<close>

definition index_tool :: "index_env \<Rightarrow> Server \<Rightarrow> tool_result \<times> Server" where
  "index_tool env s =
     (let currentStatus = indexStatus s
      in if currentStatus = IndexStatusInProgress
         then (errorResult ''Indexing already in progress'', s)
         else
          (let s1 = (if currentStatus = IndexStatusReady \<or> currentStatus = IndexStatusFailed
                     then s\<lparr>indexReady := False\<rparr> else s);
               s2 = setIndexStatus IndexStatusInProgress None s1
           in case scan env of
                Inl err \<Rightarrow>
                  (errorResult (''Scan failed: '' @ Error err),
                   setIndexStatus IndexStatusFailed (Some (Wrapped ''scan failed'' err)) s2)
              | Inr nodes \<Rightarrow>
                 (let validFileList = collect_valid_files [] nodes;
                      s3 = log_call (BulkUpsertNodes nodes) s2
                  in case upsert_nodes env of
                       Some err \<Rightarrow>
                         (errorResult (''Failed to store nodes: '' @ Error err),
                          setIndexStatus IndexStatusFailed
                            (Some (Wrapped ''failed to store nodes'' err)) s3)
                     | None \<Rightarrow>
                        (let s4 = prune_stale env validFileList s3
                         in case enrich env of
                              Inl err \<Rightarrow>
                                (errorResult (''Enrich failed: '' @ Error err),
                                 setIndexStatus IndexStatusFailed
                                   (Some (Wrapped ''LSP enrichment failed'' err)) s4)
                            | Inr edges \<Rightarrow>
                               (let s5 = log_call (BulkUpsertEdges edges) s4
                                in case upsert_edges env of
                                     Some err \<Rightarrow>
                                       (errorResult (''Failed to store edges: '' @ Error err),
                                        setIndexStatus IndexStatusFailed
                                          (Some (Wrapped ''failed to store edges'' err)) s5)
                                   | None \<Rightarrow>
                                       (textResult (index_summary nodes edges (seconds env)),
                                        setIndexStatus IndexStatusReady None s5))))))"

subsection \<open>The \<open>index\<close> tool, statement by statement\<close>

text \<open>
  Two calls of the tool can run at the same time.  Between two of its accesses to the
  server's state or to the store, a call can be overtaken by another one; each access
  (a section under \<open>indexMu\<close>, a call of the scanner, the store or the enricher) is one
  step.  The program counter holds what the call has in its local variables.
\<close>

datatype pc =
    AtStart
  | AtReset IndexStatus
  | AtSetInProgress
  | AtScan
  | AtUpsertNodes "Node list"
  | AtPrune "Node list"
  | AtEnrich "Node list"
  | AtUpsertEdges "Node list" "Edge list"
  | AtSetReady "Node list" "Edge list"
  | AtSetFailed error tool_result
  | Returned tool_result

fun index_step :: "index_env \<Rightarrow> pc \<Rightarrow> Server \<Rightarrow> pc \<times> Server" where
  "index_step env AtStart s =
     (let currentStatus = indexStatus s
      in if currentStatus = IndexStatusInProgress
         then (Returned (errorResult ''Indexing already in progress''), s)
         else (AtReset currentStatus, s))"
| "index_step env (AtReset currentStatus) s =
     (if currentStatus = IndexStatusReady \<or> currentStatus = IndexStatusFailed
      then (AtSetInProgress, s\<lparr>indexReady := False\<rparr>)
      else (AtSetInProgress, s))"
| "index_step env AtSetInProgress s = (AtScan, setIndexStatus IndexStatusInProgress None s)"
| "index_step env AtScan s =
     (case scan env of
        Inl err \<Rightarrow>
          (AtSetFailed (Wrapped ''scan failed'' err) (errorResult (''Scan failed: '' @ Error err)), s)
      | Inr nodes \<Rightarrow> (AtUpsertNodes nodes, s))"
| "index_step env (AtUpsertNodes nodes) s =
     (case upsert_nodes env of
        Some err \<Rightarrow>
          (AtSetFailed (Wrapped ''failed to store nodes'' err)
             (errorResult (''Failed to store nodes: '' @ Error err)),
           log_call (BulkUpsertNodes nodes) s)
      | None \<Rightarrow> (AtPrune nodes, log_call (BulkUpsertNodes nodes) s))"
| "index_step env (AtPrune nodes) s =
     (AtEnrich nodes, prune_stale env (collect_valid_files [] nodes) s)"
| "index_step env (AtEnrich nodes) s =
     (case enrich env of
        Inl err \<Rightarrow>
          (AtSetFailed (Wrapped ''LSP enrichment failed'' err)
             (errorResult (''Enrich failed: '' @ Error err)), s)
      | Inr edges \<Rightarrow> (AtUpsertEdges nodes edges, s))"
| "index_step env (AtUpsertEdges nodes edges) s =
     (case upsert_edges env of
        Some err \<Rightarrow>
          (AtSetFailed (Wrapped ''failed to store edges'' err)
             (errorResult (''Failed to store edges: '' @ Error err)),
           log_call (BulkUpsertEdges edges) s)
      | None \<Rightarrow> (AtSetReady nodes edges, log_call (BulkUpsertEdges edges) s))"
| "index_step env (AtSetReady nodes edges) s =
     (Returned (textResult (index_summary nodes edges (seconds env))),
      setIndexStatus IndexStatusReady None s)"
| "index_step env (AtSetFailed err r) s =
     (Returned r, setIndexStatus IndexStatusFailed (Some err) s)"
| "index_step env (Returned r) s = (Returned r, s)"

text \<open>A call running alone for \<open>n\<close> steps.\<close>

fun run_alone :: "nat \<Rightarrow> index_env \<Rightarrow> pc \<times> Server \<Rightarrow> pc \<times> Server" where
  "run_alone 0 env c = c"
| "run_alone (Suc n) env (p, s) = run_alone n env (index_step env p s)"

text \<open>
  Two calls under a schedule: \<open>True\<close> lets the first call take a step, \<open>False\<close> the
  second.  The configuration is the two program counters and the server.
\<close>

fun interleave ::
  "index_env \<Rightarrow> index_env \<Rightarrow> bool list \<Rightarrow> pc \<times> pc \<times> Server \<Rightarrow> pc \<times> pc \<times> Server" where
  "interleave env1 env2 [] c = c"
| "interleave env1 env2 (True # sched) (p1, p2, s) =
     (case index_step env1 p1 s of (p1', s') \<Rightarrow> interleave env1 env2 sched (p1', p2, s'))"
| "interleave env1 env2 (False # sched) (p1, p2, s) =
     (case index_step env2 p2 s of (p2', s') \<Rightarrow> interleave env1 env2 sched (p1, p2', s'))"

text \<open>A call is in flight between setting the status to in-progress and returning.\<close>

fun in_flight :: "pc \<Rightarrow> bool" where
  "in_flight AtStart = False"
| "in_flight (AtReset cs) = False"
| "in_flight AtSetInProgress = False"
| "in_flight (Returned r) = False"
| "in_flight _ = True"

fun is_mutation :: "store_call \<Rightarrow> bool" where
  "is_mutation (BulkUpsertNodes ns) = True"
| "is_mutation (PruneStaleFiles fs) = True"
| "is_mutation (BulkUpsertEdges es) = True"
| "is_mutation _ = False"

text \<open>
  A server that has not indexed yet, a workspace with one symbol, and runs in which
  everything succeeds, or everything but the pruning.
\<close>

definition server0 :: Server where
  "server0 = \<lparr>indexStatus = IndexStatusIdle, indexError = None, indexReady = False,
               store_calls = [], stderr = []\<rparr>"

definition node_main :: Node where
  "node_main = \<lparr>ID = GenerateNodeID ''/w/main.go'' ''main'', Name = ''main'',
                 Kind = ''function_declaration'', FilePath = ''/w/main.go'',
                 LineStart = 3, LineEnd = 5, ColStart = 0, ColEnd = 1,
                 SymbolURI = ''file:///w/main.go''\<rparr>"

definition env_good :: index_env where
  "env_good = \<lparr>scan = Inr [node_main], upsert_nodes = None, prune = None,
               enrich = Inr [], upsert_edges = None, seconds = ''0.01''\<rparr>"

definition env_prune_fails :: index_env where
  "env_prune_fails = env_good\<lparr>prune := Some (Failure ''database is locked'')\<rparr>"

subsection \<open>\<open>readSource\<close>\<close>

definition LF :: char where
  "LF = CHR 0x0A"

definition CR :: char where
  "CR = CHR 0x0D"

text \<open>
  \<open>bufio.Scanner\<close> with its default split function \<open>ScanLines\<close> and its default buffer:
  a token is a line without its end-of-line marker, a line feed with a carriage return
  before it dropped; the last line needs no line feed; a line of \<open>MaxScanTokenSize\<close>
  bytes or more stops the scanner with \<open>ErrTooLong\<close>.
\<close>

definition MaxScanTokenSize :: nat where
  "MaxScanTokenSize = 64 * 1024"

definition dropCR :: "string \<Rightarrow> string" where
  "dropCR data = (if data \<noteq> [] \<and> last data = CR then butlast data else data)"

definition line_of :: "string \<Rightarrow> string" where
  "line_of data = takeWhile (\<lambda>c. c \<noteq> LF) data"

definition after_line :: "string \<Rightarrow> string" where
  "after_line data = drop (Suc (length (line_of data))) data"

datatype token = NoToken | TokenError error | Token string string

definition next_token :: "string \<Rightarrow> token" where
  "next_token data =
     (if data = [] then NoToken
      else if length (line_of data) \<ge> MaxScanTokenSize then TokenError ErrTooLong
      else Token (dropCR (line_of data)) (after_line data))"

text \<open>
  The loop of \<open>readSource\<close>: \<open>data\<close> is what the scanner has not read yet, \<open>builder\<close>
  the text collected so far.
\<close>

function read_lines :: "int \<Rightarrow> int \<Rightarrow> string \<Rightarrow> int \<Rightarrow> bool \<Rightarrow> string \<Rightarrow> error + string" where
  "read_lines lineStart lineEnd data currentLine first builder =
     (case next_token data of
        NoToken \<Rightarrow> Inr builder
      | TokenError e \<Rightarrow> Inl e
      | Token line rest \<Rightarrow>
         (let inside = (currentLine \<ge> lineStart \<and> currentLine \<le> lineEnd);
              builder' = (if inside then (if first then builder else builder @ [LF]) @ line
                          else builder);
              first' = (if inside then False else first)
          in if currentLine > lineEnd then Inr builder'
             else read_lines lineStart lineEnd rest (currentLine + 1) first' builder'))"
  by pat_completeness auto
termination
proof (relation "measure (\<lambda>(lineStart, lineEnd, data, currentLine, first, builder). length data)")
  show "wf (measure (\<lambda>(lineStart, lineEnd, data, currentLine, first, builder). length data))"
    by simp
next
  fix lineStart lineEnd :: int and data :: string and currentLine :: int and first :: bool
    and builder line rest :: string and inside :: bool and builder' :: string and first' :: bool
  assume "next_token data = Token line rest"
  then have "data \<noteq> []" and "rest = after_line data"
    by (auto simp: next_token_def split: if_splits)
  then have "length rest < length data"
    by (cases data) (simp_all add: after_line_def)
  then show "((lineStart, lineEnd, rest, currentLine + 1, first', builder'),
              (lineStart, lineEnd, data, currentLine, first, builder))
             \<in> measure (\<lambda>(lineStart, lineEnd, data, currentLine, first, builder). length data)"
    by simp
qed

declare read_lines.simps [simp del]

text \<open>The file system: what \<open>os.Open\<close> and reading the file give for a path.\<close>

type_synonym filesystem = "string \<Rightarrow> error + string"

definition readSource :: "filesystem \<Rightarrow> string \<Rightarrow> int \<Rightarrow> int \<Rightarrow> error + string" where
  "readSource fs filePath lineStart lineEnd =
     (case fs filePath of
        Inl err \<Rightarrow> Inl err
      | Inr data \<Rightarrow> read_lines lineStart lineEnd data 1 True [])"

text \<open>
  The lines of a file, as they stand in it: the pieces between line feeds, with their
  carriage returns; and lines joined by line feeds.
\<close>

function file_lines :: "string \<Rightarrow> string list" where
  "file_lines data = (if data = [] then [] else line_of data # file_lines (after_line data))"
  by pat_completeness auto
termination
  by (relation "measure length") (auto simp: after_line_def)

declare file_lines.simps [simp del]



subsection \<open>The query tools\<close>

text \<open>
  Every query tool starts by waiting for the index, at most 30 seconds.  \<open>latched_at\<close>
  and \<open>c\<close> are what \<open>WaitForIndex\<close> meets, \<open>s\<close> is the server when the wait is over.
  The result is the time waited and, when the tool gives up, what it returns; \<open>None\<close>
  stands for a wait that never ends.
\<close>

definition await_index :: "int option \<Rightarrow> ctx \<Rightarrow> Server \<Rightarrow> (int \<times> tool_result option) option" where
  "await_index latched_at c s =
     (case WaitForIndex latched_at (WithTimeout c (30 * Second)) of
        None \<Rightarrow> None
      | Some (waited, None) \<Rightarrow> Some (waited, None)
      | Some (waited, Some err) \<Rightarrow>
          (case GetIndexStatus s of
             (status, Some indexErr) \<Rightarrow>
               Some (waited, Some (errorResult (''Indexing failed: '' @ Error indexErr)))
           | (status, None) \<Rightarrow>
               if status = IndexStatusInProgress
               then Some (waited, Some (errorResult ''Indexing in progress, please try again''))
               else Some (waited, Some (errorResult (''Indexing wait failed: '' @ Error err)))))"

text \<open>The wait ends with an error: the context is done before the index is ready.\<close>

definition wait_fails :: "int option \<Rightarrow> ctx \<Rightarrow> bool" where
  "wait_fails latched_at c =
     (case WaitForIndex latched_at (WithTimeout c (30 * Second)) of
        Some (w, Some err) \<Rightarrow> True
      | _ \<Rightarrow> False)"

text \<open>What the store answers to a query, and the files that \<open>readSource\<close> reads.\<close>

record query_env =
  latched_at :: "int option"
  caller_ctx :: ctx
  answer :: "error + Node list"
  filesystem :: filesystem

record query_run =
  waited :: int
  returned :: tool_result
  server :: Server

definition node_range :: "Node \<Rightarrow> string" where
  "node_range n =
     Itoa (LineStart n) @ '':'' @ Itoa (ColStart n) @ ''-''
       @ Itoa (LineEnd n) @ '':'' @ Itoa (ColEnd n)"

definition get_symbols_in_file :: "query_env \<Rightarrow> Server \<Rightarrow> string \<Rightarrow> query_run option" where
  "get_symbols_in_file env s file_path =
     (case await_index (latched_at env) (caller_ctx env) s of
        None \<Rightarrow> None
      | Some (w, Some r) \<Rightarrow> Some \<lparr>waited = w, returned = r, server = s\<rparr>
      | Some (w, None) \<Rightarrow>
          (let s' = log_call (GetSymbolsInFile file_path) s
           in case answer env of
                Inl err \<Rightarrow>
                  Some \<lparr>waited = w, returned = errorResult (''Query failed: '' @ Error err),
                        server = s'\<rparr>
              | Inr nodes \<Rightarrow>
                  Some \<lparr>waited = w,
                        returned = symbolsResult
                          (map (\<lambda>n. \<lparr>simple_name = Name n, simple_kind = Kind n,
                                       simple_range = node_range n\<rparr>) nodes),
                        server = s'\<rparr>))"

definition find_impact :: "query_env \<Rightarrow> Server \<Rightarrow> string \<Rightarrow> query_run option" where
  "find_impact env s symbol_name =
     (case await_index (latched_at env) (caller_ctx env) s of
        None \<Rightarrow> None
      | Some (w, Some r) \<Rightarrow> Some \<lparr>waited = w, returned = r, server = s\<rparr>
      | Some (w, None) \<Rightarrow>
          (let s' = log_call (FindImpact symbol_name) s
           in case answer env of
                Inl err \<Rightarrow>
                  Some \<lparr>waited = w, returned = errorResult (''Query failed: '' @ Error err),
                        server = s'\<rparr>
              | Inr nodes \<Rightarrow>
                  if nodes = []
                  then Some \<lparr>waited = w, returned = textResult ''No impacted symbols found.'',
                             server = s'\<rparr>
                  else Some \<lparr>waited = w,
                             returned = impactResult
                               (map (\<lambda>n. \<lparr>impact_name = Name n, impact_file_path = FilePath n,
                                            impact_kind = Kind n\<rparr>) nodes),
                             server = s'\<rparr>))"

text \<open>
  The loop of \<open>get_symbol\<close> over the nodes found: with \<open>with_source\<close> the source is read;
  when reading fails a warning is written and the record keeps an empty \<open>source\<close>.
\<close>

fun symbol_infos :: "filesystem \<Rightarrow> bool \<Rightarrow> Node list \<Rightarrow> Server \<Rightarrow> SymbolInfo list \<times> Server" where
  "symbol_infos fs with_source [] s = ([], s)"
| "symbol_infos fs with_source (n # nodes) s =
     (let (si, s1) =
            (if with_source then
               (case readSource fs (FilePath n) (LineStart n) (LineEnd n) of
                  Inl err \<Rightarrow>
                    (\<lparr>node = n, source = []\<rparr>,
                     warn (''Warning: Failed to read source for '' @ Name n @ '' in ''
                             @ FilePath n @ '': '' @ Error err) s)
                | Inr src \<Rightarrow> (\<lparr>node = n, source = src\<rparr>, s))
             else (\<lparr>node = n, source = []\<rparr>, s));
          (info, s2) = symbol_infos fs with_source nodes s1
      in (si # info, s2))"

definition get_symbol :: "query_env \<Rightarrow> Server \<Rightarrow> string \<Rightarrow> bool \<Rightarrow> query_run option" where
  "get_symbol env s symbol_name with_source =
     (case await_index (latched_at env) (caller_ctx env) s of
        None \<Rightarrow> None
      | Some (w, Some r) \<Rightarrow> Some \<lparr>waited = w, returned = r, server = s\<rparr>
      | Some (w, None) \<Rightarrow>
          (let s' = log_call (GetSymbolLocation symbol_name) s
           in case answer env of
                Inl err \<Rightarrow>
                  Some \<lparr>waited = w, returned = errorResult (''Query failed: '' @ Error err),
                        server = s'\<rparr>
              | Inr nodes \<Rightarrow>
                  if nodes = []
                  then Some \<lparr>waited = w, returned = textResult ''Symbol not found.'', server = s'\<rparr>
                  else (case symbol_infos (filesystem env) with_source nodes s' of
                          (info, s'') \<Rightarrow>
                            Some \<lparr>waited = w, returned = infoResult info, server = s''\<rparr>)))"

text \<open>
  Servers in which a run is under way and in which a run has failed, and a query that
  meets no readiness and a caller that gives up after 5 seconds.
\<close>

definition server_indexing :: Server where
  "server_indexing = setIndexStatus IndexStatusInProgress None server0"

definition server_failed :: Server where
  "server_failed =
     snd (index_tool (env_good\<lparr>scan := Inl (Failure ''permission denied'')\<rparr>) server0)"

definition query_never_ready :: query_env where
  "query_never_ready =
     \<lparr>latched_at = None, caller_ctx = None, answer = Inr [node_main],
      filesystem = (\<lambda>p. Inl (Failure ''no such file''))\<rparr>"

definition query_impatient :: query_env where
  "query_impatient = query_never_ready\<lparr>caller_ctx := Some (5 * Second, Canceled)\<rparr>"












section \<open>LSP framing (\<open>ReadMessage\<close>, \<open>WriteMessage\<close>)\<close>

subsection \<open>\<open>strings.TrimSpace\<close>, \<open>strings.SplitN\<close>, \<open>strconv.Atoi\<close>\<close>

text \<open>
  \<open>strings.TrimSpace\<close> removes the white space of Unicode from both ends of a string of
  UTF-8 bytes.  These are the encodings of the white-space characters: the six of ASCII,
  U+0085, U+00A0, U+1680, U+2000 to U+200A, U+2028, U+2029, U+202F, U+205F and U+3000.
  A byte that does not start one of them (an invalid byte too) is no white space.
\<close>

definition unicode_spaces :: "string list" where
  "unicode_spaces =
     [[CHR 0x09], [CHR 0x0A], [CHR 0x0B], [CHR 0x0C], [CHR 0x0D], [CHR 0x20],
      [CHR 0xC2, CHR 0x85], [CHR 0xC2, CHR 0xA0], [CHR 0xE1, CHR 0x9A, CHR 0x80],
      [CHR 0xE2, CHR 0x80, CHR 0x80], [CHR 0xE2, CHR 0x80, CHR 0x81],
      [CHR 0xE2, CHR 0x80, CHR 0x82], [CHR 0xE2, CHR 0x80, CHR 0x83],
      [CHR 0xE2, CHR 0x80, CHR 0x84], [CHR 0xE2, CHR 0x80, CHR 0x85],
      [CHR 0xE2, CHR 0x80, CHR 0x86], [CHR 0xE2, CHR 0x80, CHR 0x87],
      [CHR 0xE2, CHR 0x80, CHR 0x88], [CHR 0xE2, CHR 0x80, CHR 0x89],
      [CHR 0xE2, CHR 0x80, CHR 0x8A], [CHR 0xE2, CHR 0x80, CHR 0xA8],
      [CHR 0xE2, CHR 0x80, CHR 0xA9], [CHR 0xE2, CHR 0x80, CHR 0xAF],
      [CHR 0xE2, CHR 0x81, CHR 0x9F], [CHR 0xE3, CHR 0x80, CHR 0x80]]"

text \<open>Removing from the front of a string every piece that is one of the given ones.\<close>

function strip_front :: "string list \<Rightarrow> string \<Rightarrow> string" where
  "strip_front pieces s =
     (case find (\<lambda>p. p \<noteq> [] \<and> prefix p s) pieces of
        None \<Rightarrow> s
      | Some p \<Rightarrow> strip_front pieces (drop (length p) s))"
  by pat_completeness auto
termination
proof (relation "measure (\<lambda>(pieces, s). length s)")
  show "wf (measure (\<lambda>(pieces, s). length s))"
    by simp
next
  fix pieces :: "string list" and s p :: string
  assume "find (\<lambda>p. p \<noteq> [] \<and> prefix p s) pieces = Some p"
  then have "p \<noteq> []" and "prefix p s"
    by (auto simp: find_Some_iff)
  then have "s \<noteq> []" and "0 < length p"
    by auto
  then show "((pieces, drop (length p) s), (pieces, s)) \<in> measure (\<lambda>(pieces, s). length s)"
    by simp
qed

declare strip_front.simps [simp del]

definition TrimSpace :: "string \<Rightarrow> string" where
  "TrimSpace s =
     rev (strip_front (map rev unicode_spaces) (rev (strip_front unicode_spaces s)))"

text \<open>\<open>strings.Index\<close> and \<open>strings.SplitN(s, sep, 2)\<close> for a non-empty separator.\<close>

fun Index :: "string \<Rightarrow> string \<Rightarrow> nat option" where
  "Index [] sep = (if sep = [] then Some 0 else None)"
| "Index (c # cs) sep =
     (if prefix sep (c # cs) then Some 0 else map_option Suc (Index cs sep))"

definition SplitN2 :: "string \<Rightarrow> string \<Rightarrow> string list" where
  "SplitN2 s sep =
     (case Index s sep of
        None \<Rightarrow> [s]
      | Some i \<Rightarrow> [take i s, drop (i + length sep) s])"

text \<open>
  \<open>strconv.Atoi\<close> where \<open>int\<close> has 64 bits: an optional sign and decimal digits, at
  least one; a value outside the range of \<open>int\<close> is an error.
\<close>

definition is_digit :: "char \<Rightarrow> bool" where
  "is_digit c = (48 \<le> (of_char c :: nat) \<and> (of_char c :: nat) \<le> 57)"

definition digit_val :: "char \<Rightarrow> nat" where
  "digit_val c = of_char c - 48"

fun parse_digits :: "nat \<Rightarrow> string \<Rightarrow> nat option" where
  "parse_digits acc [] = Some acc"
| "parse_digits acc (c # cs) =
     (if is_digit c then parse_digits (acc * 10 + digit_val c) cs else None)"

definition Atoi :: "string \<Rightarrow> error + int" where
  "Atoi s =
     (let neg = (s \<noteq> [] \<and> hd s = CHR ''-'');
          ds = (if s \<noteq> [] \<and> (hd s = CHR ''-'' \<or> hd s = CHR ''+'') then tl s else s)
      in if ds = [] then Inl (ErrSyntax s)
         else (case parse_digits 0 ds of
                 None \<Rightarrow> Inl (ErrSyntax s)
               | Some n \<Rightarrow>
                   if neg then (if n > 2 ^ 63 then Inl (ErrRange s) else Inr (- int n))
                   else (if n \<ge> 2 ^ 63 then Inl (ErrRange s) else Inr (int n))))"

subsection \<open>Reading a message\<close>

text \<open>
  The reader is the bytes not read yet; after them the stream is at its end.
  \<open>ReadString\<close> returns the bytes up to the delimiter and with it, or \<open>io.EOF\<close> when
  there is none left.  \<open>io.ReadFull\<close> returns exactly \<open>n\<close> bytes or an error.
\<close>

definition ReadString :: "char \<Rightarrow> string \<Rightarrow> (error + string) \<times> string" where
  "ReadString delim r =
     (let line = takeWhile (\<lambda>c. c \<noteq> delim) r
      in if length line < length r
         then (Inr (line @ [delim]), drop (Suc (length line)) r)
         else (Inl EOF, []))"

definition ReadFull :: "nat \<Rightarrow> string \<Rightarrow> (error + string) \<times> string" where
  "ReadFull n r =
     (if n \<le> length r then (Inr (take n r), drop n r)
      else if r = [] then (Inl EOF, [])
      else (Inl ErrUnexpectedEOF, []))"

text \<open>The loop over the header lines; \<open>contentLength\<close> is the value read so far.\<close>

function read_headers :: "string \<Rightarrow> int \<Rightarrow> (error + int) \<times> string" where
  "read_headers r contentLength =
     (case ReadString LF r of
        (Inl err, r') \<Rightarrow> (Inl err, r')
      | (Inr line, r') \<Rightarrow>
          (let line' = TrimSpace line
           in if line' = [] then (Inr contentLength, r')
              else
               (let parts = SplitN2 line' '': ''
                in if length parts = 2 \<and> parts ! 0 = ''Content-Length''
                   then (case Atoi (parts ! 1) of
                           Inl err \<Rightarrow> (Inl (Wrapped ''invalid Content-Length'' err), r')
                         | Inr n \<Rightarrow> read_headers r' n)
                   else read_headers r' contentLength)))"
  by pat_completeness auto
termination
proof (relation "measure (\<lambda>(r, contentLength). length r)")
  show "wf (measure (\<lambda>(r, contentLength). length r))"
    by simp
next
  fix r :: string and contentLength :: int and x :: "error + string" and r' line :: string
  assume "(x, r') = ReadString LF r" and "x = Inr line"
  then have "length r' < length r"
    by (auto simp: ReadString_def Let_def split: if_splits)
  then show "((r', contentLength), (r, contentLength)) \<in> measure (\<lambda>(r, contentLength). length r)"
    by simp
  fix n :: int
  from \<open>length r' < length r\<close>
  show "((r', n), (r, contentLength)) \<in> measure (\<lambda>(r, contentLength). length r)"
    by simp
qed

declare read_headers.simps [simp del]

text \<open>
  The largest allocation of the run-time system (linux/amd64): \<open>make([]byte, n)\<close> panics
  for a negative \<open>n\<close> and for one beyond it.
\<close>

definition maxAlloc :: int where
  "maxAlloc = 2 ^ 48"

definition ReadMessage :: "string \<Rightarrow> (error + string) \<times> string" where
  "ReadMessage r =
     (case read_headers r 0 of
        (Inl err, r') \<Rightarrow> (Inl err, r')
      | (Inr contentLength, r') \<Rightarrow>
          if contentLength = 0 then (Inl (Failure ''missing or zero Content-Length''), r')
          else if contentLength < 0 \<or> contentLength > maxAlloc
          then (Inl (Panic ''runtime error: makeslice: len out of range''), r')
          else (case ReadFull (nat contentLength) r' of
                  (Inl err, r'') \<Rightarrow> (Inl (Wrapped ''failed to read body'' err), r'')
                | (Inr body, r'') \<Rightarrow> (Inr body, r'')))"

subsection \<open>Writing a message\<close>

text \<open>
  The writer: the bytes written so far and the room left, if it is bounded; a write
  beyond it writes what fits and fails.
\<close>

record writer =
  written :: string
  room :: "nat option"

definition Write :: "string \<Rightarrow> writer \<Rightarrow> error option \<times> writer" where
  "Write bytes w =
     (case room w of
        None \<Rightarrow> (None, w\<lparr>written := written w @ bytes\<rparr>)
      | Some k \<Rightarrow>
          if length bytes \<le> k
          then (None, w\<lparr>written := written w @ bytes, room := Some (k - length bytes)\<rparr>)
          else (Some ErrShortWrite, w\<lparr>written := written w @ take k bytes, room := Some 0\<rparr>))"

definition header_of :: "string \<Rightarrow> string" where
  "header_of body = ''Content-Length: '' @ Itoa (int (length body)) @ [CR, LF, CR, LF]"

text \<open>\<open>marshal\<close> stands for \<open>json.Marshal\<close>.\<close>

definition WriteMessage :: "('v \<Rightarrow> error + string) \<Rightarrow> writer \<Rightarrow> 'v \<Rightarrow> error option \<times> writer" where
  "WriteMessage marshal w msg =
     (case marshal msg of
        Inl err \<Rightarrow> (Some (Wrapped ''failed to marshal message'' err), w)
      | Inr body \<Rightarrow>
          (case Write (header_of body) w of
             (Some err, w') \<Rightarrow> (Some err, w')
           | (None, w') \<Rightarrow> Write body w'))"

text \<open>Writing a list of messages, and reading \<open>n\<close> messages, stopping at the first error.\<close>

fun write_all :: "('v \<Rightarrow> error + string) \<Rightarrow> writer \<Rightarrow> 'v list \<Rightarrow> error option \<times> writer" where
  "write_all marshal w [] = (None, w)"
| "write_all marshal w (msg # msgs) =
     (case WriteMessage marshal w msg of
        (Some err, w') \<Rightarrow> (Some err, w')
      | (None, w') \<Rightarrow> write_all marshal w' msgs)"

fun read_all :: "nat \<Rightarrow> string \<Rightarrow> (error + string) list \<times> string" where
  "read_all 0 r = ([], r)"
| "read_all (Suc n) r =
     (case ReadMessage r of
        (Inl err, r') \<Rightarrow> ([Inl err], r')
      | (Inr body, r') \<Rightarrow> (case read_all n r' of (ms, r'') \<Rightarrow> (Inr body # ms, r'')))"

text \<open>
  The header line that \<open>WriteMessage\<close> writes for a body of \<open>n\<close> bytes; a trimmed
  line that \<open>ReadMessage\<close> takes for the content length; and a line, with its line feed,
  that it reads and passes over.
\<close>

definition content_length_line :: "nat \<Rightarrow> string" where
  "content_length_line n = ''Content-Length: '' @ digits n @ [CR, LF]"

definition is_content_length :: "string \<Rightarrow> bool" where
  "is_content_length line' =
     (length (SplitN2 line' '': '') = 2 \<and> SplitN2 line' '': '' ! 0 = ''Content-Length'')"

definition other_header :: "string \<Rightarrow> bool" where
  "other_header line =
     (line \<noteq> [] \<and> last line = LF \<and> LF \<notin> set (butlast line)
      \<and> TrimSpace line \<noteq> [] \<and> \<not> is_content_length (TrimSpace line))"



text \<open>
  A value that \<open>json.Marshal\<close> serializes: the serialization of a value is a JSON text,
  which has at least one byte, and it fits into memory.  \<open>body_of\<close> is the serialization,
  \<open>frames\<close> what \<open>WriteMessage\<close> writes for a list of bodies.
\<close>

definition marshals :: "('v \<Rightarrow> error + string) \<Rightarrow> 'v \<Rightarrow> bool" where
  "marshals marshal v =
     (case marshal v of
        Inl err \<Rightarrow> False
      | Inr body \<Rightarrow> body \<noteq> [] \<and> int (length body) \<le> maxAlloc)"

definition body_of :: "('v \<Rightarrow> error + string) \<Rightarrow> 'v \<Rightarrow> string" where
  "body_of marshal v = (case marshal v of Inl err \<Rightarrow> [] | Inr body \<Rightarrow> body)"

definition frames :: "string list \<Rightarrow> string" where
  "frames bodies = concat (map (\<lambda>body. header_of body @ body) bodies)"

text \<open>A serializer of two requests, and a pipe without bound.\<close>

datatype request = Initialize | Shutdown

fun marshal_request :: "request \<Rightarrow> error + string" where
  "marshal_request Initialize = Inr ''{\"jsonrpc\":\"2.0\",\"id\":1,\"method\":\"initialize\"}''"
| "marshal_request Shutdown = Inr ''{\"jsonrpc\":\"2.0\",\"id\":2,\"method\":\"shutdown\"}''"

definition pipe0 :: writer where
  "pipe0 = \<lparr>written = [], room = None\<rparr>"


section \<open>Theorems\<close>

subsection \<open>Paths and URIs\<close>

lemma Clean_example: "Clean ''/srv/app/main.go'' = ''/srv/app/main.go''"
  by (simp add: Clean_def IsPathSeparator_def Separator_def)

text \<open>
  C9: for an absolute, cleaned file path on a non-Windows platform, \<open>PathToURI\<close> puts
  \<open>file://\<close> in front of the path and \<open>URIToPath\<close> gives the path back, whatever the
  working directory is.
\<close>

theorem uri_roundtrip:
  assumes "IsAbs p" and "Clean p = p"
  shows "PathToURI wd p = ''file://'' @ p \<and> URIToPath (PathToURI wd p) = p"
proof -
  have a: "Abs wd p = Some p"
    using assms by (simp add: Abs_def)
  have u: "PathToURI wd p = ''file://'' @ p"
    by (simp add: PathToURI_def a convertToSlash_def ToSlash_def Separator_def)
  have "URIToPath (''file://'' @ p) = p"
    by (simp add: URIToPath_def convertFromSlash_def FromSlash_def Separator_def)
  with u show ?thesis by simp
qed

theorem uri_roundtrip_witness:
  "IsAbs ''/srv/app/main.go'' \<and> Clean ''/srv/app/main.go'' = ''/srv/app/main.go''
   \<and> PathToURI None ''/srv/app/main.go'' = ''file://'' @ ''/srv/app/main.go''
   \<and> URIToPath (PathToURI None ''/srv/app/main.go'') = ''/srv/app/main.go''"
proof -
  have h1: "IsAbs ''/srv/app/main.go''" by (simp add: IsAbs_def)
  have h2: "Clean ''/srv/app/main.go'' = ''/srv/app/main.go''" by (rule Clean_example)
  show ?thesis
    using h1 h2 uri_roundtrip [OF h1 h2, of None] by blast
qed

subsection \<open>Node identifiers\<close>

lemma hextable_inj:
  assumes "i < 16" and "j < 16" and "hextable ! i = hextable ! j"
  shows "i = j"
proof -
  have "distinct hextable" and "length hextable = 16"
    by (simp_all add: hextable_def)
  with assms show ?thesis
    by (simp add: nth_eq_iff_index_eq)
qed

lemma hex_byte_inj:
  assumes "hex_byte c = hex_byte d"
  shows "c = d"
proof -
  let ?m = "of_char c :: nat" and ?n = "of_char d :: nat"
  have bound: "?m < 256" "?n < 256"
    by simp_all
  have "hextable ! (?m div 16) = hextable ! (?n div 16)"
    and "hextable ! (?m mod 16) = hextable ! (?n mod 16)"
    using assms by (simp_all add: hex_byte_def)
  moreover have "?m div 16 < 16" "?n div 16 < 16" "?m mod 16 < 16" "?n mod 16 < 16"
    using bound by arith+
  ultimately have "?m div 16 = ?n div 16" and "?m mod 16 = ?n mod 16"
    by (blast intro: hextable_inj)+
  then have "?m = ?n"
    by (metis div_mult_mod_eq)
  then show ?thesis
    by simp
qed

lemma EncodeToString_inj:
  "EncodeToString xs = EncodeToString ys \<Longrightarrow> xs = ys"
proof (induction xs arbitrary: ys)
  case Nil
  then show ?case
    by (cases ys) (simp_all add: EncodeToString_def hex_byte_def)
next
  case (Cons x xs)
  then obtain y ys' where ys: "ys = y # ys'"
    by (cases ys) (simp_all add: EncodeToString_def hex_byte_def)
  from Cons.prems ys have "hex_byte x = hex_byte y" and "EncodeToString xs = EncodeToString ys'"
    by (simp_all add: EncodeToString_def hex_byte_def)
  with Cons.IH ys show ?case
    by (simp add: hex_byte_inj)
qed

lemma EncodeToString_length: "length (EncodeToString xs) = 2 * length xs"
  by (induction xs) (simp_all add: EncodeToString_def hex_byte_def)

lemma EncodeToString_digits: "set (EncodeToString xs) \<subseteq> set hextable"
proof -
  have "length hextable = 16"
    by (simp add: hextable_def)
  moreover have "(of_char c :: nat) div 16 < 16" for c
  proof -
    have "(of_char c :: nat) < 256" by simp
    then show ?thesis by arith
  qed
  ultimately have "set (hex_byte c) \<subseteq> set hextable" for c
    by (simp add: hex_byte_def)
  then show ?thesis
    by (auto simp: EncodeToString_def)
qed

lemma sha_round_length: "length (sha_round s kw) = length s"
  by (cases "(s, kw)" rule: sha_round.cases) (simp_all add: Let_def)

lemma foldl_sha_round_length: "length (foldl sha_round s kws) = length s"
  by (induction kws arbitrary: s) (simp_all add: sha_round_length)

lemma compress_length: "length (compress hs block) = length hs"
  by (simp add: compress_def foldl_sha_round_length)

lemma foldl_compress_length: "length (foldl compress hs blocks) = length hs"
  by (induction blocks arbitrary: hs) (simp_all add: compress_length)

lemma concat_be_bytes_length: "length (concat (map be_bytes ws)) = 4 * length ws"
  by (induction ws) (simp_all add: be_bytes_def)

lemma Sum256_length: "length (Sum256 msg) = 32"
  by (simp add: Sum256_def concat_be_bytes_length foldl_compress_length init256_def)

text \<open>
  C3, as amended: the identifier is a function of the joined string
  \<open>filePath ++ ":" ++ symbolName\<close> alone.  It is the 64 lower-case hexadecimal digits of
  the SHA-256 digest of that string, so two pairs get the same identifier exactly when
  their joined strings have the same digest.
\<close>

theorem node_id_determined:
  "(GenerateNodeID p n = GenerateNodeID p' n')
     = (Sum256 (node_input p n) = Sum256 (node_input p' n'))
   \<and> length (GenerateNodeID p n) = 64
   \<and> set (GenerateNodeID p n) \<subseteq> set hextable"
proof (intro conjI)
  show "(GenerateNodeID p n = GenerateNodeID p' n')
          = (Sum256 (node_input p n) = Sum256 (node_input p' n'))"
    unfolding GenerateNodeID_def by (rule iffI, erule EncodeToString_inj, erule arg_cong)
  show "length (GenerateNodeID p n) = 64"
    unfolding GenerateNodeID_def EncodeToString_length Sum256_length by simp
  show "set (GenerateNodeID p n) \<subseteq> set hextable"
    unfolding GenerateNodeID_def by (rule EncodeToString_digits)
qed

text \<open>
  The identifier is not injective on pairs: the colon that joins path and name may as
  well belong to either of them.
\<close>

theorem node_id_collision:
  "(''a:b'', ''c'') \<noteq> (''a'', ''b:c'')
   \<and> GenerateNodeID ''a:b'' ''c'' = GenerateNodeID ''a'' ''b:c''"
  by (simp add: GenerateNodeID_def node_input_def)

subsection \<open>Downloading with retries\<close>

lemma attempt_once_fst: "fst (attempt_once f dest) = fst (attempt_once f [])"
  by (cases f) (simp_all split: option.splits)

lemma retry_error_Inl:
  "retry_error f = Some e \<Longrightarrow> \<exists>dest'. attempt_once f dest = (Inl e, dest')"
proof -
  assume "retry_error f = Some e"
  then have "fst (attempt_once f []) = Inl e"
    by (simp add: retry_error_def split: sum.splits)
  then have "fst (attempt_once f dest) = Inl e"
    by (simp add: attempt_once_fst [of f dest])
  then show ?thesis
    by (cases "attempt_once f dest") simp
qed

lemma download_loop_4:
  "download_loop w 4 lastErr dest log =
     \<lparr>result = Some (RetriesExhausted 3 lastErr), dest_file = dest, events = log\<rparr>"
  by (subst download_loop.simps) (simp add: maxRetries_def)

lemma download_loop_3:
  "download_loop w 3 lastErr dest log =
     (case wakes w 3 of
        ContextDone e \<Rightarrow> \<lparr>result = Some e, dest_file = dest, events = log @ [Sleep (9 * Second)]\<rparr>
      | TimerFired \<Rightarrow>
         (case attempt_once (fetches w 3) dest of
            (Inl e, dest') \<Rightarrow>
              \<lparr>result = Some (RetriesExhausted 3 (Some e)), dest_file = dest',
               events = log @ [Sleep (9 * Second), Get 3]\<rparr>
          | (Inr r, dest') \<Rightarrow>
              \<lparr>result = r, dest_file = dest', events = log @ [Sleep (9 * Second), Get 3]\<rparr>))"
  by (subst download_loop.simps)
     (simp add: maxRetries_def download_loop_4 split: wake.splits sum.splits prod.splits)

lemma download_loop_2:
  "download_loop w 2 lastErr dest log =
     (case wakes w 2 of
        ContextDone e \<Rightarrow> \<lparr>result = Some e, dest_file = dest, events = log @ [Sleep (4 * Second)]\<rparr>
      | TimerFired \<Rightarrow>
         (case attempt_once (fetches w 2) dest of
            (Inl e, dest') \<Rightarrow> download_loop w 3 (Some e) dest' (log @ [Sleep (4 * Second), Get 2])
          | (Inr r, dest') \<Rightarrow>
              \<lparr>result = r, dest_file = dest', events = log @ [Sleep (4 * Second), Get 2]\<rparr>))"
  by (subst download_loop.simps)
     (simp add: maxRetries_def split: wake.splits sum.splits prod.splits)

lemma download_loop_1:
  "download_loop w (Suc 0) lastErr dest log =
     (case attempt_once (fetches w 1) dest of
        (Inl e, dest') \<Rightarrow> download_loop w 2 (Some e) dest' (log @ [Get 1])
      | (Inr r, dest') \<Rightarrow> \<lparr>result = r, dest_file = dest', events = log @ [Get 1]\<rparr>)"
  by (subst download_loop.simps)
     (simp add: maxRetries_def numeral_2_eq_2 split: sum.splits prod.splits)

lemmas download_unfold =
  downloadFile_def download_loop_1 download_loop_2 download_loop_3

lemma download_events_prefix:
  "prefix (events (downloadFile w dest))
     [Get 1, Sleep (4 * Second), Get 2, Sleep (9 * Second), Get 3]"
  by (simp add: download_unfold split: wake.splits sum.splits prod.splits)

lemma download_exhausted:
  assumes "retry_error (fetches w 1) = Some e1" and "wakes w 2 = TimerFired"
    and "retry_error (fetches w 2) = Some e2" and "wakes w 3 = TimerFired"
    and "retry_error (fetches w 3) = Some e3"
  shows "result (downloadFile w dest) = Some (RetriesExhausted 3 (Some e3))
       \<and> events (downloadFile w dest) = [Get 1, Sleep (4 * Second), Get 2, Sleep (9 * Second), Get 3]"
proof -
  obtain d1 where a1: "attempt_once (fetches w 1) dest = (Inl e1, d1)"
    using retry_error_Inl [OF assms(1)] by blast
  obtain d2 where a2: "attempt_once (fetches w 2) d1 = (Inl e2, d2)"
    using retry_error_Inl [OF assms(3)] by blast
  obtain d3 where a3: "attempt_once (fetches w 3) d2 = (Inl e3, d3)"
    using retry_error_Inl [OF assms(5)] by blast
  show ?thesis
    using a1 a2 a3 assms(2,4) by (simp add: download_unfold)
qed

lemma download_cancelled_2:
  assumes "retry_error (fetches w 1) = Some e1" and "wakes w 2 = ContextDone c"
  shows "result (downloadFile w dest) = Some c
       \<and> events (downloadFile w dest) = [Get 1, Sleep (4 * Second)]"
proof -
  obtain d1 where a1: "attempt_once (fetches w 1) dest = (Inl e1, d1)"
    using retry_error_Inl [OF assms(1)] by blast
  show ?thesis
    using a1 assms(2) by (simp add: download_unfold)
qed

lemma download_cancelled_3:
  assumes "retry_error (fetches w 1) = Some e1" and "wakes w 2 = TimerFired"
    and "retry_error (fetches w 2) = Some e2" and "wakes w 3 = ContextDone c"
  shows "result (downloadFile w dest) = Some c
       \<and> events (downloadFile w dest) = [Get 1, Sleep (4 * Second), Get 2, Sleep (9 * Second)]"
proof -
  obtain d1 where a1: "attempt_once (fetches w 1) dest = (Inl e1, d1)"
    using retry_error_Inl [OF assms(1)] by blast
  obtain d2 where a2: "attempt_once (fetches w 2) d1 = (Inl e2, d2)"
    using retry_error_Inl [OF assms(3)] by blast
  show ?thesis
    using a1 a2 assms(2,4) by (simp add: download_unfold)
qed

lemma flaky_retry_errors:
  "retry_error (flaky 1) = Some (Failure ''connection refused'')"
  "retry_error (flaky 2) = Some (HTTPError 503 ''503 Service Unavailable'')"
  "retry_error (flaky 3) = Some ErrUnexpectedEOF"
  by (simp_all add: retry_error_def flaky_def StatusOK_def)

text \<open>
  C8, as amended: the download makes at most three attempts and sleeps \<open>attempt\<^sup>2\<close>
  seconds before attempt number \<open>attempt\<close>, that is 4 seconds before attempt 2 and 9
  seconds before attempt 3.  When all three attempts end in a retry, the result wraps the
  error of the third attempt; when the context is done during a backoff, the result is the
  context's error and no further attempt is made.
\<close>

theorem download_retries:
  "prefix (events (downloadFile w dest))
     [Get 1, Sleep (4 * Second), Get 2, Sleep (9 * Second), Get 3]
   \<and> (retry_error (fetches w 1) = Some e1 \<and> wakes w 2 = TimerFired
        \<and> retry_error (fetches w 2) = Some e2 \<and> wakes w 3 = TimerFired
        \<and> retry_error (fetches w 3) = Some e3
      \<longrightarrow> result (downloadFile w dest) = Some (RetriesExhausted 3 (Some e3))
        \<and> events (downloadFile w dest)
            = [Get 1, Sleep (4 * Second), Get 2, Sleep (9 * Second), Get 3])
   \<and> (retry_error (fetches w 1) = Some e1 \<and> wakes w 2 = ContextDone c
      \<longrightarrow> result (downloadFile w dest) = Some c
        \<and> events (downloadFile w dest) = [Get 1, Sleep (4 * Second)])
   \<and> (retry_error (fetches w 1) = Some e1 \<and> wakes w 2 = TimerFired
        \<and> retry_error (fetches w 2) = Some e2 \<and> wakes w 3 = ContextDone c
      \<longrightarrow> result (downloadFile w dest) = Some c
        \<and> events (downloadFile w dest)
            = [Get 1, Sleep (4 * Second), Get 2, Sleep (9 * Second)])"
  using download_events_prefix [of w dest] download_exhausted [of w e1 e2 e3 dest]
    download_cancelled_2 [of w e1 c dest] download_cancelled_3 [of w e1 e2 c dest]
  by blast

theorem download_retries_witness:
  "result (downloadFile net_all_fail ''old'') = Some (RetriesExhausted 3 (Some ErrUnexpectedEOF))
   \<and> events (downloadFile net_all_fail ''old'')
       = [Get 1, Sleep (4 * Second), Get 2, Sleep (9 * Second), Get 3]
   \<and> result (downloadFile net_cancel_2 ''old'') = Some Canceled
   \<and> events (downloadFile net_cancel_2 ''old'') = [Get 1, Sleep (4 * Second)]
   \<and> result (downloadFile net_cancel_3 ''old'') = Some DeadlineExceeded
   \<and> events (downloadFile net_cancel_3 ''old'')
       = [Get 1, Sleep (4 * Second), Get 2, Sleep (9 * Second)]"
proof -
  have a: "retry_error (fetches net_all_fail 1) = Some (Failure ''connection refused'')"
    "wakes net_all_fail 2 = TimerFired"
    "retry_error (fetches net_all_fail 2) = Some (HTTPError 503 ''503 Service Unavailable'')"
    "wakes net_all_fail 3 = TimerFired"
    "retry_error (fetches net_all_fail 3) = Some ErrUnexpectedEOF"
    using flaky_retry_errors by (simp_all add: net_all_fail_def)
  have b: "retry_error (fetches net_cancel_2 1) = Some (Failure ''connection refused'')"
    "wakes net_cancel_2 2 = ContextDone Canceled"
    using flaky_retry_errors by (simp_all add: net_cancel_2_def)
  have c: "retry_error (fetches net_cancel_3 1) = Some (Failure ''connection refused'')"
    "wakes net_cancel_3 2 = TimerFired"
    "retry_error (fetches net_cancel_3 2) = Some (HTTPError 503 ''503 Service Unavailable'')"
    "wakes net_cancel_3 3 = ContextDone DeadlineExceeded"
    using flaky_retry_errors by (simp_all add: net_cancel_3_def)
  show ?thesis
    using a b c
      download_retries [of net_all_fail "''old''" "Failure ''connection refused''"
        "HTTPError 503 ''503 Service Unavailable''" ErrUnexpectedEOF Canceled]
      download_retries [of net_cancel_2 "''old''" "Failure ''connection refused''"
        "HTTPError 503 ''503 Service Unavailable''" ErrUnexpectedEOF Canceled]
      download_retries [of net_cancel_3 "''old''" "Failure ''connection refused''"
        "HTTPError 503 ''503 Service Unavailable''" ErrUnexpectedEOF DeadlineExceeded]
    by blast
qed

text \<open>
  The backoff before attempt 2 is 4 seconds and the one before attempt 3 is 9 seconds,
  not 1 and 4.
\<close>

theorem download_backoff_counterexample:
  "events (downloadFile net_all_fail ''old'')
     = [Get 1, Sleep 4000000000, Get 2, Sleep 9000000000, Get 3]
   \<and> events (downloadFile net_all_fail ''old'')
     \<noteq> [Get 1, Sleep (1 * Second), Get 2, Sleep (4 * Second), Get 3]"
  by (simp add: download_unfold net_all_fail_def flaky_def StatusOK_def Second_def)

subsection \<open>Checksum verification during an install\<close>

lemma verifies_call: "verifies (call st msg outcome) = is_verify st"
  by (simp add: verifies_def call_def split: option.splits)

lemma verifies_and_then: "verifies (and_then a b) \<Longrightarrow> verifies a \<or> verifies b"
  by (cases a; cases b) (auto simp: verifies_def and_then_def split: option.splits)

lemma verifies_nil: "\<not> verifies (r, [])"
  by (simp add: verifies_def)

lemma place_binary_no_verify: "\<not> verifies (place_binary env metadata bytes)"
  by (auto simp: place_binary_def verifies_call dest!: verifies_and_then)

lemma register_package_no_verify:
  "\<not> verifies (register_package env name metadata url checksum)"
  by (auto simp: register_package_def verifies_call verifies_nil dest!: verifies_and_then)

lemma verify_if_provided_empty:
  "checksum_for metadata platform = [] \<Longrightarrow> \<not> verifies (verify_if_provided env metadata platform bytes)"
  by (simp add: verify_if_provided_def verifies_nil)

lemma downloadAndInstall_no_verify:
  assumes "checksum_for metadata platform = []"
  shows "\<not> verifies (downloadAndInstall env platform lang metadata)"
  using verify_if_provided_empty [OF assms, of env] place_binary_no_verify [of env metadata]
  by (auto simp: downloadAndInstall_def Let_def verifies_call verifies_nil
      split: option.splits dest!: verifies_and_then)

lemma Install_no_verify:
  assumes "checksum_for metadata platform = []"
  shows "\<not> verifies (Install env platform name metadata)"
  using verify_if_provided_empty [OF assms, of "files env"]
    place_binary_no_verify [of "files env" metadata]
    register_package_no_verify [of env name metadata]
  by (auto simp: Install_def Let_def verifies_call verifies_nil
      split: option.splits dest!: verifies_and_then)

lemma table_checksums_empty:
  assumes "map_of lspMetadata lang = Some entry"
  shows "checksum_for entry platform = []"
proof -
  have "entry \<in> {meta_go, meta_python, meta_typescript, meta_lua, meta_zig}"
    using assms by (auto simp: lspMetadata_def split: if_splits)
  moreover have "checksum_for meta_go platform = []"
    by (simp add: checksum_for_def meta_go_def)
  moreover have "checksum_for meta_python platform = []"
    by (simp add: checksum_for_def meta_python_def)
  moreover have "checksum_for meta_typescript platform = []"
    by (simp add: checksum_for_def meta_typescript_def)
  moreover have "checksum_for meta_lua platform = []"
    by (simp add: checksum_for_def meta_lua_def)
  moreover have "checksum_for meta_zig platform = []"
    by (simp add: checksum_for_def meta_zig_def)
  ultimately show ?thesis
    by blast
qed

lemma GetLSPMetadata_checksums:
  assumes "GetLSPMetadata resolve lang = Inr metadata"
  shows "checksum_for metadata platform = []"
proof -
  obtain entry where e: "map_of lspMetadata lang = Some entry"
    and "Checksums metadata = Checksums entry"
    using assms by (auto simp: GetLSPMetadata_def Let_def split: option.splits)
  then have "checksum_for metadata platform = checksum_for entry platform"
    by (simp add: checksum_for_def)
  with table_checksums_empty [OF e] show ?thesis
    by simp
qed

text \<open>
  C10: an install calls \<open>verifyChecksum\<close> only when the checksum configured for the
  platform is a non-empty string, in the downloader's \<open>downloadAndInstall\<close> and in the
  package manager's \<open>Install\<close> alike; and every entry that \<open>GetLSPMetadata\<close> returns
  from the shipped table has the empty checksum on every platform, so its install runs
  without a checksum check.
\<close>

theorem checksum_only_when_configured:
  "(verifies (downloadAndInstall env platform lang metadata)
      \<longrightarrow> checksum_for metadata platform \<noteq> [])
   \<and> (verifies (Install penv platform name metadata)
      \<longrightarrow> checksum_for metadata platform \<noteq> [])
   \<and> (GetLSPMetadata resolve lang = Inr metadata
      \<longrightarrow> checksum_for metadata platform = []
        \<and> \<not> verifies (downloadAndInstall env platform lang metadata)
        \<and> \<not> verifies (Install penv platform name metadata))"
  using downloadAndInstall_no_verify [of metadata platform env lang]
    Install_no_verify [of metadata platform penv name]
    GetLSPMetadata_checksums [of resolve lang metadata platform]
  by blast

lemma download_ok:
  "result (downloadFile net_ok []) = None \<and> dest_file (downloadFile net_ok []) = ''abc''"
  by (simp add: download_unfold net_ok_def StatusOK_def write_at_start_def)

lemma pinned_verifies:
  "verifies (downloadAndInstall env_ok ''linux-amd64'' ''tool'' meta_pinned)"
  "verifies (Install pkg_env_ok ''linux-amd64'' ''tool'' meta_pinned)"
  by (simp_all add: verifies_def downloadAndInstall_def Install_def Let_def download_ok
      verify_if_provided_def checksum_for_def and_then_def call_def
      env_ok_def pkg_env_ok_def meta_pinned_def split: option.splits)

theorem checksum_only_when_configured_witness:
  "verifies (downloadAndInstall env_ok ''linux-amd64'' ''tool'' meta_pinned)
   \<and> verifies (Install pkg_env_ok ''linux-amd64'' ''tool'' meta_pinned)
   \<and> checksum_for meta_pinned ''linux-amd64'' \<noteq> []
   \<and> (\<exists>m. GetLSPMetadata no_resolver ''python'' = Inr m
          \<and> checksum_for m ''linux-amd64'' = []
          \<and> \<not> verifies (downloadAndInstall env_ok ''linux-amd64'' ''python'' m)
          \<and> \<not> verifies (Install pkg_env_ok ''linux-amd64'' ''python'' m))"
proof -
  obtain m where m: "GetLSPMetadata no_resolver ''python'' = Inr m"
    by (simp add: GetLSPMetadata_def lspMetadata_def Let_def)
  show ?thesis
    using pinned_verifies m
      checksum_only_when_configured [of env_ok "''linux-amd64''" "''tool''" meta_pinned
        pkg_env_ok "''tool''" no_resolver]
      checksum_only_when_configured [of env_ok "''linux-amd64''" "''python''" m
        pkg_env_ok "''python''" no_resolver]
    by blast
qed

subsection \<open>The \<open>index\<close> tool\<close>

lemma digits_small: "n < 10 \<Longrightarrow> digits n = [digit_char n]"
  by (subst digits.simps) simp

lemma Itoa_0: "Itoa 0 = ''0''"
  by (simp add: Itoa_def digits_small digit_char_def)

lemma Itoa_1: "Itoa 1 = ''1''"
  by (simp add: Itoa_def digits_small digit_char_def)

lemma index_tool_rejects:
  "indexStatus s = IndexStatusInProgress \<Longrightarrow>
     index_tool env s = (errorResult ''Indexing already in progress'', s)"
  by (simp add: index_tool_def)

lemma setIndexStatus_fields [simp]:
  "indexStatus (setIndexStatus st e s) = st"
  "indexError (setIndexStatus st e s) = e"
  "store_calls (setIndexStatus st e s) = store_calls s"
  "stderr (setIndexStatus st e s) = stderr s"
  by (simp_all add: setIndexStatus_def)

lemma index_tool_succeeds:
  assumes "indexStatus s \<noteq> IndexStatusInProgress"
    and "scan env = Inr nodes" and "upsert_nodes env = None"
    and "enrich env = Inr edges" and "upsert_edges env = None"
  shows "fst (index_tool env s) = textResult (index_summary nodes edges (seconds env))"
    and "indexStatus (snd (index_tool env s)) = IndexStatusReady"
    and "indexError (snd (index_tool env s)) = None"
    and "indexReady (snd (index_tool env s))"
  using assms by (simp_all add: index_tool_def Let_def setIndexStatus_def)

lemma index_tool_prune_irrelevant:
  "fst (index_tool (env\<lparr>prune := p\<rparr>) s) = fst (index_tool env s)"
  "indexStatus (snd (index_tool (env\<lparr>prune := p\<rparr>) s)) = indexStatus (snd (index_tool env s))"
  "indexError (snd (index_tool (env\<lparr>prune := p\<rparr>) s)) = indexError (snd (index_tool env s))"
  "store_calls (snd (index_tool (env\<lparr>prune := p\<rparr>) s)) = store_calls (snd (index_tool env s))"
  by (simp_all add: index_tool_def Let_def prune_stale_def log_call_def warn_def
      split: sum.splits option.splits)

text \<open>
  C7: a run in which \<open>PruneStaleFiles\<close> returns an error while the scan, the node upsert,
  the enrichment and the edge upsert succeed ends with the status ready and the summary
  \<open>Indexed N nodes and M edges\<close>; the result, the status, the stored error and the calls
  on the store are those of the run in which the pruning succeeds, and the error is written
  to the standard error stream.
\<close>

theorem prune_error_keeps_ready:
  assumes "indexStatus s \<noteq> IndexStatusInProgress"
    and "scan env = Inr nodes" and "upsert_nodes env = None"
    and "prune env = Some err"
    and "enrich env = Inr edges" and "upsert_edges env = None"
  shows "fst (index_tool env s) = textResult (index_summary nodes edges (seconds env))
       \<and> indexStatus (snd (index_tool env s)) = IndexStatusReady
       \<and> indexError (snd (index_tool env s)) = None
       \<and> fst (index_tool env s) = fst (index_tool (env\<lparr>prune := None\<rparr>) s)
       \<and> store_calls (snd (index_tool env s)) = store_calls (snd (index_tool (env\<lparr>prune := None\<rparr>) s))
       \<and> stderr (snd (index_tool env s))
           = stderr s @ [''Warning: Failed to prune stale files: '' @ Error err]"
proof -
  have "stderr (snd (index_tool env s))
          = stderr s @ [''Warning: Failed to prune stale files: '' @ Error err]"
    using assms
    by (simp add: index_tool_def Let_def prune_stale_def log_call_def warn_def setIndexStatus_def)
  then show ?thesis
    using index_tool_succeeds [OF assms(1,2,3,5,6)] index_tool_prune_irrelevant [where env = env and p = None and s = s]
    by simp
qed

theorem prune_error_keeps_ready_witness:
  "fst (index_tool env_prune_fails server0) = textResult ''Indexed 1 nodes and 0 edges in 0.01s''
   \<and> indexStatus (snd (index_tool env_prune_fails server0)) = IndexStatusReady
   \<and> stderr (snd (index_tool env_prune_fails server0))
       = [''Warning: Failed to prune stale files: database is locked'']"
proof -
  have h: "indexStatus server0 \<noteq> IndexStatusInProgress"
    "scan env_prune_fails = Inr [node_main]" "upsert_nodes env_prune_fails = None"
    "prune env_prune_fails = Some (Failure ''database is locked'')"
    "enrich env_prune_fails = Inr []" "upsert_edges env_prune_fails = None"
    by (simp_all add: server0_def env_prune_fails_def env_good_def)
  have "index_summary [node_main] [] (seconds env_prune_fails) = ''Indexed 1 nodes and 0 edges in 0.01s''"
    by (simp add: index_summary_def Itoa_0 Itoa_1 env_prune_fails_def env_good_def)
  moreover have "stderr server0 = []"
    by (simp add: server0_def)
  ultimately show ?thesis
    using prune_error_keeps_ready [OF h] by simp
qed

subsection \<open>Two calls of the \<open>index\<close> tool at the same time\<close>

text \<open>Run alone, the statements of the tool make up the handler.\<close>

lemma run_alone_index_tool:
  "run_alone 9 env (AtStart, s) = (Returned (fst (index_tool env s)), snd (index_tool env s))"
  by (simp add: eval_nat_numeral index_tool_def Let_def split: sum.splits option.splits)

text \<open>
  A call that reads the status while another call is in flight is rejected and leaves the
  server and the store as they are.
\<close>

lemma index_step_rejects:
  "indexStatus s = IndexStatusInProgress \<Longrightarrow>
     index_step env AtStart s = (Returned (errorResult ''Indexing already in progress''), s)"
  by simp

text \<open>
  C1 fails on the code.  The handler reads the status under the read lock and sets it to
  in-progress in a later, separate section under the lock.  When the second call reads
  the status between these two sections of the first call, both calls find the status
  idle: after three steps each, both are in flight, and run to the end both return the
  summary, neither is rejected, and each has made its three mutating calls on the store.
\<close>

theorem index_race:
  "(case interleave env_good env_good [True, False, True, False, True, False]
           (AtStart, AtStart, server0) of
      (p1, p2, s) \<Rightarrow> in_flight p1 \<and> in_flight p2 \<and> indexStatus s = IndexStatusInProgress)
   \<and> (case interleave env_good env_good
           [True, False, True, False, True, False, True, True, True, True, True, True,
            False, False, False, False, False, False]
           (AtStart, AtStart, server0) of
      (p1, p2, s) \<Rightarrow>
        p1 = Returned (textResult ''Indexed 1 nodes and 0 edges in 0.01s'')
        \<and> p2 = Returned (textResult ''Indexed 1 nodes and 0 edges in 0.01s'')
        \<and> length (filter is_mutation (store_calls s)) = 6)"
  by (simp add: env_good_def server0_def setIndexStatus_def log_call_def prune_stale_def
      index_summary_def Itoa_0 Itoa_1)

subsection \<open>The query tools wait for the index\<close>

lemma WaitForIndex_bounded:
  "\<exists>w r. WaitForIndex l (WithTimeout c (30 * Second)) = Some (w, r) \<and> w \<le> 30 * Second"
  by (cases l; cases c) (auto simp: WaitForIndex_def WithTimeout_def)

lemma wait_fails_never_ready: "wait_fails None c"
  by (cases c) (auto simp: wait_fails_def WaitForIndex_def WithTimeout_def)

lemma await_index_cases:
  obtains w where "await_index l c s = Some (w, None)" "w \<le> 30 * Second" "\<not> wait_fails l c"
  | w r where "await_index l c s = Some (w, Some r)" "w \<le> 30 * Second" "wait_fails l c"
      "indexError s = None \<longrightarrow> indexStatus s = IndexStatusInProgress
         \<longrightarrow> r = errorResult ''Indexing in progress, please try again''"
      "\<forall>e. indexError s = Some e \<longrightarrow> r = errorResult (''Indexing failed: '' @ Error e)"
proof -
  obtain w r where wr: "WaitForIndex l (WithTimeout c (30 * Second)) = Some (w, r)"
    and w: "w \<le> 30 * Second"
    using WaitForIndex_bounded [of l c] by (elim exE conjE)
  show thesis
  proof (cases r)
    case None
    with wr w that(1) show thesis
      by (simp add: await_index_def wait_fails_def)
  next
    case (Some err)
    define r' where "r' =
      (case indexError s of
         Some indexErr \<Rightarrow> errorResult (''Indexing failed: '' @ Error indexErr)
       | None \<Rightarrow>
           if indexStatus s = IndexStatusInProgress
           then errorResult ''Indexing in progress, please try again''
           else errorResult (''Indexing wait failed: '' @ Error err))"
    have a: "await_index l c s = Some (w, Some r')"
      using wr Some
      by (simp add: await_index_def GetIndexStatus_def r'_def split: option.splits)
    have b: "wait_fails l c"
      using wr Some by (simp add: wait_fails_def)
    have c: "indexError s = None \<longrightarrow> indexStatus s = IndexStatusInProgress
        \<longrightarrow> r' = errorResult ''Indexing in progress, please try again''"
      by (simp add: r'_def)
    have d: "\<forall>e. indexError s = Some e \<longrightarrow> r' = errorResult (''Indexing failed: '' @ Error e)"
      by (simp add: r'_def)
    show thesis
      by (rule that(2) [OF a w b c d])
  qed
qed

lemma get_symbols_in_file_waits:
  "\<exists>r. get_symbols_in_file env s arg = Some r \<and> waited r \<le> 30 * Second
     \<and> (wait_fails (latched_at env) (caller_ctx env) \<longrightarrow>
          server r = s
          \<and> (indexError s = None \<and> indexStatus s = IndexStatusInProgress \<longrightarrow>
               returned r = errorResult ''Indexing in progress, please try again'')
          \<and> (indexError s = Some e \<longrightarrow>
               returned r = errorResult (''Indexing failed: '' @ Error e)))"
  by (rule await_index_cases [of "latched_at env" "caller_ctx env" s])
     (auto simp: get_symbols_in_file_def Let_def split: sum.splits)

lemma find_impact_waits:
  "\<exists>r. find_impact env s arg = Some r \<and> waited r \<le> 30 * Second
     \<and> (wait_fails (latched_at env) (caller_ctx env) \<longrightarrow>
          server r = s
          \<and> (indexError s = None \<and> indexStatus s = IndexStatusInProgress \<longrightarrow>
               returned r = errorResult ''Indexing in progress, please try again'')
          \<and> (indexError s = Some e \<longrightarrow>
               returned r = errorResult (''Indexing failed: '' @ Error e)))"
  by (rule await_index_cases [of "latched_at env" "caller_ctx env" s])
     (auto simp: find_impact_def Let_def split: sum.splits)

lemma get_symbol_waits:
  "\<exists>r. get_symbol env s arg with_source = Some r \<and> waited r \<le> 30 * Second
     \<and> (wait_fails (latched_at env) (caller_ctx env) \<longrightarrow>
          server r = s
          \<and> (indexError s = None \<and> indexStatus s = IndexStatusInProgress \<longrightarrow>
               returned r = errorResult ''Indexing in progress, please try again'')
          \<and> (indexError s = Some e \<longrightarrow>
               returned r = errorResult (''Indexing failed: '' @ Error e)))"
  by (rule await_index_cases [of "latched_at env" "caller_ctx env" s])
     (auto simp: get_symbol_def Let_def split: sum.splits prod.splits)

lemma failed_run_not_ready:
  assumes "indexStatus (snd (index_tool ienv s)) = IndexStatusFailed"
    and "indexReady s \<longrightarrow> indexStatus s = IndexStatusReady"
  shows "\<not> indexReady (snd (index_tool ienv s)) \<and> indexError (snd (index_tool ienv s)) \<noteq> None"
  using assms
  by (auto simp: index_tool_def Let_def setIndexStatus_def log_call_def prune_stale_def warn_def
      split: sum.splits option.splits if_splits)

text \<open>
  C4: each of the three query tools returns after waiting at most 30 seconds.  When the
  wait ends with an error, the tool does not query the store: it returns the stored error
  of the index when there is one, and \<open>Indexing in progress, please try again\<close> when
  there is none and the status is in-progress.  The wait ends with an error whenever
  readiness never comes, and a failed run of the index leaves the readiness latch open
  and an error stored.
\<close>

theorem query_tools_wait:
  assumes "tool \<in> {get_symbols_in_file env s arg, find_impact env s arg,
                   get_symbol env s arg with_source}"
  shows "(\<exists>r. tool = Some r \<and> waited r \<le> 30 * Second
           \<and> (wait_fails (latched_at env) (caller_ctx env) \<longrightarrow>
                server r = s
                \<and> (indexError s = None \<and> indexStatus s = IndexStatusInProgress \<longrightarrow>
                     returned r = errorResult ''Indexing in progress, please try again'')
                \<and> (indexError s = Some e \<longrightarrow>
                     returned r = errorResult (''Indexing failed: '' @ Error e))))
       \<and> (latched_at env = None \<longrightarrow> wait_fails (latched_at env) (caller_ctx env))
       \<and> (indexStatus (snd (index_tool ienv s0)) = IndexStatusFailed
            \<and> (indexReady s0 \<longrightarrow> indexStatus s0 = IndexStatusReady)
          \<longrightarrow> \<not> indexReady (snd (index_tool ienv s0))
            \<and> indexError (snd (index_tool ienv s0)) \<noteq> None)"
proof (intro conjI)
  from assms consider "tool = get_symbols_in_file env s arg" | "tool = find_impact env s arg"
    | "tool = get_symbol env s arg with_source"
    by auto
  then show "\<exists>r. tool = Some r \<and> waited r \<le> 30 * Second
           \<and> (wait_fails (latched_at env) (caller_ctx env) \<longrightarrow>
                server r = s
                \<and> (indexError s = None \<and> indexStatus s = IndexStatusInProgress \<longrightarrow>
                     returned r = errorResult ''Indexing in progress, please try again'')
                \<and> (indexError s = Some e \<longrightarrow>
                     returned r = errorResult (''Indexing failed: '' @ Error e)))"
  proof cases
    case 1
    then show ?thesis using get_symbols_in_file_waits [of env s arg e] by simp
  next
    case 2
    then show ?thesis using find_impact_waits [of env s arg e] by simp
  next
    case 3
    then show ?thesis using get_symbol_waits [of env s arg with_source e] by simp
  qed
  show "latched_at env = None \<longrightarrow> wait_fails (latched_at env) (caller_ctx env)"
    by (simp add: wait_fails_never_ready)
  show "indexStatus (snd (index_tool ienv s0)) = IndexStatusFailed
            \<and> (indexReady s0 \<longrightarrow> indexStatus s0 = IndexStatusReady)
          \<longrightarrow> \<not> indexReady (snd (index_tool ienv s0))
            \<and> indexError (snd (index_tool ienv s0)) \<noteq> None"
    using failed_run_not_ready [of ienv s0] by simp
qed

lemma server_failed_fields:
  "indexStatus server_failed = IndexStatusFailed"
  "indexError server_failed = Some (Wrapped ''scan failed'' (Failure ''permission denied''))"
  by (simp_all add: server_failed_def index_tool_def env_good_def server0_def Let_def)

theorem query_tools_wait_witness:
  "(\<exists>r. get_symbols_in_file query_never_ready server_indexing ''/w/main.go'' = Some r
        \<and> waited r \<le> 30 * Second
        \<and> returned r = errorResult ''Indexing in progress, please try again''
        \<and> server r = server_indexing)
   \<and> (\<exists>r. find_impact query_impatient server_failed ''main'' = Some r
        \<and> waited r \<le> 30 * Second
        \<and> returned r = errorResult ''Indexing failed: scan failed: permission denied''
        \<and> server r = server_failed)
   \<and> \<not> indexReady server_failed"
proof (intro conjI)
  let ?t1 = "get_symbols_in_file query_never_ready server_indexing ''/w/main.go''"
  let ?t2 = "find_impact query_impatient server_failed ''main''"
  let ?e = "Wrapped ''scan failed'' (Failure ''permission denied'')"
  have m1: "?t1 \<in> {get_symbols_in_file query_never_ready server_indexing ''/w/main.go'',
                    find_impact query_never_ready server_indexing ''/w/main.go'',
                    get_symbol query_never_ready server_indexing ''/w/main.go'' True}"
    by simp
  have m2: "?t2 \<in> {get_symbols_in_file query_impatient server_failed ''main'',
                    find_impact query_impatient server_failed ''main'',
                    get_symbol query_impatient server_failed ''main'' True}"
    by simp
  have l1: "latched_at query_never_ready = None" and l2: "latched_at query_impatient = None"
    by (simp_all add: query_never_ready_def query_impatient_def)
  have s1: "indexError server_indexing = None \<and> indexStatus server_indexing = IndexStatusInProgress"
    by (simp add: server_indexing_def)
  have s2: "indexError server_failed = Some ?e"
    by (rule server_failed_fields)
  have f: "indexStatus (snd (index_tool (env_good\<lparr>scan := Inl (Failure ''permission denied'')\<rparr>) server0))
             = IndexStatusFailed
           \<and> (indexReady server0 \<longrightarrow> indexStatus server0 = IndexStatusReady)"
    using server_failed_fields(1) by (simp add: server_failed_def server0_def)
  note t1 = query_tools_wait [OF m1, of ?e "env_good\<lparr>scan := Inl (Failure ''permission denied'')\<rparr>" server0]
  note t2 = query_tools_wait [OF m2, of ?e "env_good\<lparr>scan := Inl (Failure ''permission denied'')\<rparr>" server0]
  from t1 l1 s1
  show "\<exists>r. ?t1 = Some r \<and> waited r \<le> 30 * Second
        \<and> returned r = errorResult ''Indexing in progress, please try again''
        \<and> server r = server_indexing"
    by auto
  from t2 l2 s2
  show "\<exists>r. ?t2 = Some r \<and> waited r \<le> 30 * Second
        \<and> returned r = errorResult ''Indexing failed: scan failed: permission denied''
        \<and> server r = server_failed"
    by auto
  from t2 f show "\<not> indexReady server_failed"
    by (simp add: server_failed_def)
qed

subsection \<open>Reading the source of a symbol\<close>

lemma file_lines_Nil [simp]: "file_lines [] = []"
  by (subst file_lines.simps) simp






















subsection \<open>Decimal numbers\<close>

lemma digit_char_props:
  assumes "n < 10"
  shows "is_digit (digit_char n)" and "digit_val (digit_char n) = n"
proof -
  from assms have "n \<in> {0, 1, 2, 3, 4, 5, 6, 7, 8, 9}"
    by auto
  then show "is_digit (digit_char n)" and "digit_val (digit_char n) = n"
    by (auto simp: is_digit_def digit_val_def digit_char_def)
qed

lemma parse_digits_append:
  "parse_digits acc (xs @ ys) = (case parse_digits acc xs of None \<Rightarrow> None | Some a \<Rightarrow> parse_digits a ys)"
  by (induction xs arbitrary: acc) simp_all

lemma parse_digits_digits: "parse_digits 0 (digits n) = Some n"
proof (induction n rule: digits.induct)
  case (1 n)
  show ?case
  proof (cases "n < 10")
    case True
    then show ?thesis
      by (simp add: digits_small digit_char_props)
  next
    case False
    have "n mod 10 < 10" by simp
    note d = digit_char_props [OF this]
    from False have "digits n = digits (n div 10) @ [digit_char (n mod 10)]"
      by (subst digits.simps) simp
    with "1.IH" [OF False] d show ?thesis
      by (simp add: parse_digits_append)
  qed
qed

lemma digits_all_digit: "list_all is_digit (digits n)"
proof (induction n rule: digits.induct)
  case (1 n)
  show ?case
  proof (cases "n < 10")
    case True
    then show ?thesis
      by (simp add: digits_small digit_char_props)
  next
    case False
    have "n mod 10 < 10" by simp
    note d = digit_char_props [OF this]
    from False have "digits n = digits (n div 10) @ [digit_char (n mod 10)]"
      by (subst digits.simps) simp
    with "1.IH" [OF False] d show ?thesis
      by simp
  qed
qed

lemma digits_not_Nil: "digits n \<noteq> []"
  by (subst digits.simps) simp

lemma is_digit_not_sign: "is_digit c \<Longrightarrow> c \<noteq> CHR ''-'' \<and> c \<noteq> CHR ''+''"
  by (auto simp: is_digit_def)

lemma Atoi_digits:
  assumes "n < 2 ^ 63"
  shows "Atoi (digits n) = Inr (int n)"
proof -
  obtain c cs where d: "digits n = c # cs"
    using digits_not_Nil [of n] by (cases "digits n") auto
  with digits_all_digit [of n] have "is_digit c"
    by simp
  then have "c \<noteq> CHR ''-''" and "c \<noteq> CHR ''+''"
    using is_digit_not_sign by blast+
  with d parse_digits_digits [of n] assms show ?thesis
    by (simp add: Atoi_def)
qed

lemma Itoa_nat: "Itoa (int n) = digits n"
  by (simp add: Itoa_def)

subsection \<open>Trimming and splitting a header line\<close>

lemma strip_front_None:
  "find (\<lambda>p. p \<noteq> [] \<and> prefix p s) pieces = None \<Longrightarrow> strip_front pieces s = s"
  by (subst strip_front.simps) simp

lemma strip_front_Some:
  "find (\<lambda>p. p \<noteq> [] \<and> prefix p s) pieces = Some p \<Longrightarrow>
     strip_front pieces s = strip_front pieces (drop (length p) s)"
  by (subst strip_front.simps) simp

lemma find_prefix_None:
  "c \<notin> set (map hd pieces) \<Longrightarrow> find (\<lambda>p. p \<noteq> [] \<and> prefix p (c # r)) pieces = None"
proof (induction pieces)
  case Nil
  then show ?case by simp
next
  case (Cons p pieces)
  then have "hd p \<noteq> c" by auto
  then have "\<not> (p \<noteq> [] \<and> prefix p (c # r))"
    by (cases p) auto
  with Cons show ?case by simp
qed

lemma front_not_space:
  assumes "c \<notin> set (map hd unicode_spaces)"
  shows "strip_front unicode_spaces (c # r) = c # r"
  using assms by (intro strip_front_None find_prefix_None)

lemma back_not_space:
  assumes "c \<notin> set (map last unicode_spaces)"
  shows "strip_front (map rev unicode_spaces) (c # r) = c # r"
proof -
  have "map hd (map rev unicode_spaces) = map last unicode_spaces"
    by (simp add: unicode_spaces_def)
  with assms show ?thesis
    by (intro strip_front_None find_prefix_None) simp
qed

lemma front_strip_LF: "strip_front unicode_spaces (LF # r) = strip_front unicode_spaces r"
  by (subst strip_front.simps) (simp add: unicode_spaces_def LF_def)

lemma front_strip_CR: "strip_front unicode_spaces (CR # r) = strip_front unicode_spaces r"
  by (subst strip_front.simps) (simp add: unicode_spaces_def CR_def)

lemma back_strip_LF:
  "strip_front (map rev unicode_spaces) (LF # r) = strip_front (map rev unicode_spaces) r"
  by (subst strip_front.simps) (simp add: unicode_spaces_def LF_def)

lemma back_strip_CR:
  "strip_front (map rev unicode_spaces) (CR # r) = strip_front (map rev unicode_spaces) r"
  by (subst strip_front.simps) (simp add: unicode_spaces_def CR_def)

lemma strip_front_Nil: "strip_front pieces [] = []"
  by (rule strip_front_None) (induction pieces, simp_all)

lemma TrimSpace_blank: "TrimSpace [CR, LF] = []"
  by (simp add: TrimSpace_def front_strip_CR front_strip_LF strip_front_Nil)

lemma is_digit_not_space:
  assumes "is_digit c"
  shows "c \<notin> set (map last unicode_spaces)"
  using assms by (auto simp: is_digit_def unicode_spaces_def)

lemma TrimSpace_content_length:
  assumes "ds \<noteq> []" and "list_all is_digit ds"
  shows "TrimSpace (''Content-Length: '' @ ds @ [CR, LF]) = ''Content-Length: '' @ ds"
proof -
  have "CHR ''C'' \<notin> set (map hd unicode_spaces)"
    by (simp add: unicode_spaces_def)
  then have front: "strip_front unicode_spaces (''Content-Length: '' @ ds @ [CR, LF])
                 = ''Content-Length: '' @ ds @ [CR, LF]"
    by (simp add: front_not_space)
  from assms obtain c cs where r: "rev ds = c # cs" and c: "is_digit c"
    by (cases ds rule: rev_cases) (auto simp: list_all_iff)
  have "strip_front (map rev unicode_spaces) (rev (''Content-Length: '' @ ds @ [CR, LF]))
          = strip_front (map rev unicode_spaces) (c # cs @ rev ''Content-Length: '')"
    by (simp add: r back_strip_LF back_strip_CR)
  also have "\<dots> = c # cs @ rev ''Content-Length: ''"
    by (rule back_not_space [OF is_digit_not_space [OF c]])
  also have "\<dots> = rev (''Content-Length: '' @ ds)"
    using r by simp
  finally have bk:
    "strip_front (map rev unicode_spaces) (rev (''Content-Length: '' @ ds @ [CR, LF]))
       = rev (''Content-Length: '' @ ds)" .
  show ?thesis
    unfolding TrimSpace_def front bk by (rule rev_rev_ident)
qed

lemma SplitN2_content_length:
  "SplitN2 (''Content-Length: '' @ v) '': '' = [''Content-Length'', v]"
  by (simp add: SplitN2_def)

lemma ReadString_line:
  "LF \<notin> set l \<Longrightarrow> ReadString LF (l @ LF # r) = (Inr (l @ [LF]), r)"
proof -
  assume "LF \<notin> set l"
  then have tw: "takeWhile (\<lambda>c. c \<noteq> LF) (l @ LF # r) = l"
    by (induction l) auto
  show ?thesis
    unfolding ReadString_def Let_def tw by simp
qed


subsection \<open>Reading the header lines\<close>

lemma TrimSpace_crlf:
  assumes "l \<noteq> []" and "hd l \<notin> set (map hd unicode_spaces)"
    and "last l \<notin> set (map last unicode_spaces)"
  shows "TrimSpace (l @ [CR, LF]) = l"
proof -
  from assms(1) obtain c cs where l: "l = c # cs"
    by (cases l) auto
  with assms(2) have front: "strip_front unicode_spaces (l @ [CR, LF]) = l @ [CR, LF]"
    by (simp add: front_not_space)
  from assms(1) obtain d ds where r: "rev l = d # ds"
    by (cases l rule: rev_cases) auto
  with assms(1) have "d = last l"
    by (metis last_rev list.sel(1) rev_rev_ident hd_rev)
  with assms(3) have d: "d \<notin> set (map last unicode_spaces)"
    by simp
  have "strip_front (map rev unicode_spaces) (rev (l @ [CR, LF]))
          = strip_front (map rev unicode_spaces) (d # ds)"
    by (simp add: r back_strip_LF back_strip_CR)
  also have "\<dots> = d # ds"
    by (rule back_not_space [OF d])
  finally have bk: "strip_front (map rev unicode_spaces) (rev (l @ [CR, LF])) = rev l"
    using r by simp
  show ?thesis
    unfolding TrimSpace_def front bk by (rule rev_rev_ident)
qed



lemma read_headers_skip:
  assumes "ReadString LF x = (Inr line, r)" and "TrimSpace line = t" and "t \<noteq> []"
    and "\<not> is_content_length t"
  shows "read_headers x cl = read_headers r cl"
  using assms by (subst read_headers.simps) (auto simp: Let_def is_content_length_def)

lemma read_headers_step:
  assumes "ReadString LF x = (Inr line, r)" and "TrimSpace line = t" and "t \<noteq> []"
    and "SplitN2 t '': '' = [''Content-Length'', v]"
  shows "read_headers x cl
           = (case Atoi v of
                Inl err \<Rightarrow> (Inl (Wrapped ''invalid Content-Length'' err), r)
              | Inr n \<Rightarrow> read_headers r n)"
  using assms by (subst read_headers.simps) (simp add: Let_def)


lemma read_headers_other:
  assumes "other_header line"
  shows "read_headers (line @ r) cl = read_headers r cl"
proof -
  from assms obtain l where line: "line = l @ [LF]" and l: "LF \<notin> set l"
    by (cases line rule: rev_cases) (auto simp: other_header_def)
  have rs: "ReadString LF (line @ r) = (Inr line, r)"
    using ReadString_line [OF l, of r] by (simp add: line)
  from assms show ?thesis
    by (intro read_headers_skip [OF rs refl]) (simp_all add: other_header_def)
qed

lemma read_headers_others:
  "list_all other_header hs \<Longrightarrow> read_headers (concat hs @ r) cl = read_headers r cl"
  by (induction hs) (simp_all add: read_headers_other)

lemma read_headers_blank: "read_headers (CR # LF # r) cl = (Inr cl, r)"
proof -
  have "ReadString LF ([CR] @ LF # r) = (Inr ([CR] @ [LF]), r)"
    by (rule ReadString_line) (simp add: LF_def CR_def)
  then show ?thesis
    by (subst read_headers.simps) (simp add: TrimSpace_blank)
qed


lemma read_headers_value:
  assumes "v \<noteq> []" and "last v \<notin> set (map last unicode_spaces)" and "LF \<notin> set v"
  shows "read_headers (''Content-Length: '' @ v @ [CR, LF] @ r) cl
           = (case Atoi v of
                Inl err \<Rightarrow> (Inl (Wrapped ''invalid Content-Length'' err), r)
              | Inr n \<Rightarrow> read_headers r n)"
proof -
  let ?l = "''Content-Length: '' @ v"
  have "CHR ''C'' \<notin> set (map hd unicode_spaces)"
    by (simp add: unicode_spaces_def)
  with assms(1,2) have trim: "TrimSpace (?l @ [CR, LF]) = ?l"
    by (intro TrimSpace_crlf) simp_all
  have "LF \<notin> set (?l @ [CR])"
    using assms(3) by (simp add: LF_def CR_def)
  from ReadString_line [OF this, of r]
  have rs: "ReadString LF (''Content-Length: '' @ v @ [CR, LF] @ r) = (Inr (?l @ [CR, LF]), r)"
    by simp
  show ?thesis
    by (rule read_headers_step [OF rs trim _ SplitN2_content_length]) simp
qed

lemma is_digit_not_LF: "is_digit c \<Longrightarrow> c \<noteq> LF"
  by (auto simp: is_digit_def LF_def)

lemma read_headers_content_length:
  assumes "n < 2 ^ 63"
  shows "read_headers (content_length_line n @ r) cl = read_headers r (int n)"
proof -
  have ds: "list_all is_digit (digits n)" and ne: "digits n \<noteq> []"
    by (rule digits_all_digit, rule digits_not_Nil)
  then have "is_digit (last (digits n))"
    by (simp add: list_all_iff)
  then have a: "last (digits n) \<notin> set (map last unicode_spaces)"
    by (rule is_digit_not_space)
  have b: "LF \<notin> set (digits n)"
    using ds is_digit_not_LF by (auto simp: list_all_iff)
  from read_headers_value [OF ne a b, of r cl] Atoi_digits [OF assms] show ?thesis
    by (simp add: content_length_line_def)
qed

subsection \<open>Reading a message\<close>

lemma maxAlloc_less: "int n \<le> maxAlloc \<Longrightarrow> n < 2 ^ 63"
proof -
  assume "int n \<le> maxAlloc"
  then have "int n < 2 ^ 63"
    by (simp add: maxAlloc_def)
  then show ?thesis
    by (metis of_nat_less_iff of_nat_numeral of_nat_power)
qed

lemma read_headers_section:
  assumes "list_all other_header hs" and "list_all other_header hs'" and "int n \<le> maxAlloc"
  shows "read_headers (concat hs @ content_length_line n @ concat hs' @ CR # LF # r) cl
           = (Inr (int n), r)"
proof -
  have "read_headers (concat hs @ content_length_line n @ concat hs' @ CR # LF # r) cl
          = read_headers (content_length_line n @ concat hs' @ CR # LF # r) cl"
    by (rule read_headers_others [OF assms(1)])
  also have "\<dots> = read_headers (concat hs' @ CR # LF # r) (int n)"
    by (rule read_headers_content_length [OF maxAlloc_less [OF assms(3)]])
  also have "\<dots> = read_headers (CR # LF # r) (int n)"
    by (rule read_headers_others [OF assms(2)])
  also have "\<dots> = (Inr (int n), r)"
    by (rule read_headers_blank)
  finally show ?thesis .
qed






lemma ReadMessage_frame:
  assumes "list_all other_header hs" and "list_all other_header hs'"
    and "0 < n" and "int n \<le> maxAlloc" and "length body = n"
  shows "ReadMessage (concat hs @ content_length_line n @ concat hs' @ CR # LF # body @ rest)
           = (Inr body, rest)"
  using assms(3,4,5) read_headers_section [OF assms(1,2,4), of "body @ rest" 0]
  by (simp add: ReadMessage_def ReadFull_def)





lemma content_length_line_small:
  "content_length_line 2 = ''Content-Length: 2'' @ [CR, LF]"
  "content_length_line 5 = ''Content-Length: 5'' @ [CR, LF]"
  by (simp_all add: content_length_line_def digits_small digit_char_def)



text \<open>A negative content length is no error either: the allocation of the body panics.\<close>

lemma ReadMessage_negative:
  "ReadMessage (''Content-Length: -5'' @ [CR, LF] @ [CR, LF])
     = (Inl (Panic ''runtime error: makeslice: len out of range''), [])"
proof -
  have "read_headers (''Content-Length: '' @ ''-5'' @ [CR, LF] @ [CR, LF]) 0
          = read_headers [CR, LF] (- 5)"
    using read_headers_value [of "''-5''" "[CR, LF]" 0]
    by (simp add: unicode_spaces_def LF_def Atoi_def is_digit_def digit_val_def)
  then show ?thesis
    by (simp add: ReadMessage_def read_headers_blank)
qed

subsection \<open>Writing a message and reading it back\<close>

lemma header_of_line: "header_of body = content_length_line (length body) @ [CR, LF]"
  by (simp add: header_of_def content_length_line_def Itoa_nat)

lemma Write_ok: "Write bytes w = (None, w') \<Longrightarrow> written w' = written w @ bytes"
  by (auto simp: Write_def split: option.splits if_splits)

lemma WriteMessage_ok:
  assumes "marshal v = Inr body" and "WriteMessage marshal w v = (None, w')"
  shows "written w' = written w @ header_of body @ body"
proof (cases "Write (header_of body) w")
  case (Pair e w1)
  with assms have "e = None" and "Write body w1 = (None, w')"
    by (auto simp: WriteMessage_def split: option.splits)
  with Pair show ?thesis
    by (simp add: Write_ok)
qed

lemma ReadMessage_written:
  assumes "body \<noteq> []" and "int (length body) \<le> maxAlloc"
  shows "ReadMessage (header_of body @ body @ rest) = (Inr body, rest)"
proof -
  have e: "list_all other_header []"
    by simp
  from assms(1) have "0 < length body"
    by simp
  from ReadMessage_frame [OF e e this assms(2) refl, of rest] show ?thesis
    by (simp add: header_of_line)
qed

lemma marshals_body:
  "marshals marshal v \<Longrightarrow>
     marshal v = Inr (body_of marshal v) \<and> body_of marshal v \<noteq> []
     \<and> int (length (body_of marshal v)) \<le> maxAlloc"
  by (simp add: marshals_def body_of_def split: sum.splits)

lemma write_all_ok:
  "list_all (marshals marshal) vs \<Longrightarrow> write_all marshal w vs = (None, w') \<Longrightarrow>
     written w' = written w @ frames (map (body_of marshal) vs)"
proof (induction vs arbitrary: w)
  case Nil
  then show ?case by (simp add: frames_def)
next
  case (Cons v vs)
  obtain e w1 where w1: "WriteMessage marshal w v = (e, w1)"
    by (cases "WriteMessage marshal w v")
  with Cons.prems(2) have e: "e = None" and rest: "write_all marshal w1 vs = (None, w')"
    by (auto split: option.splits)
  from Cons.prems(1) have m: "marshal v = Inr (body_of marshal v)" and ms: "list_all (marshals marshal) vs"
    by (simp_all add: marshals_body)
  from WriteMessage_ok [where marshal = marshal and v = v, OF m] w1 e
  have "written w1 = written w @ header_of (body_of marshal v) @ body_of marshal v"
    by simp
  with Cons.IH [OF ms rest] show ?case
    by (simp add: frames_def)
qed

lemma read_all_frames:
  "list_all (\<lambda>body. body \<noteq> [] \<and> int (length body) \<le> maxAlloc) bodies \<Longrightarrow>
     read_all (length bodies) (frames bodies @ rest) = (map Inr bodies, rest)"
proof (induction bodies)
  case Nil
  then show ?case by (simp add: frames_def)
next
  case (Cons body bodies)
  then have b: "body \<noteq> []" "int (length body) \<le> maxAlloc"
    and IH: "read_all (length bodies) (frames bodies @ rest) = (map Inr bodies, rest)"
    by simp_all
  have "frames (body # bodies) @ rest = header_of body @ body @ (frames bodies @ rest)"
    by (simp add: frames_def)
  with ReadMessage_written [OF b, of "frames bodies @ rest"] IH show ?case
    by simp
qed

text \<open>
  C2: what \<open>WriteMessage\<close> writes for a value, \<open>ReadMessage\<close> reads back as the bytes of
  the value's serialization, leaving what follows in the stream; and of a list of values
  written in order, as many calls of \<open>ReadMessage\<close> return the serializations in the same
  order and use up what was written.
\<close>

theorem framing_roundtrip:
  assumes "list_all (marshals marshal) vs" and "write_all marshal w vs = (None, w')"
  shows "(\<forall>v w1 w2 rest. marshals marshal v \<and> WriteMessage marshal w1 v = (None, w2)
            \<longrightarrow> written w2 = written w1 @ header_of (body_of marshal v) @ body_of marshal v
              \<and> ReadMessage (header_of (body_of marshal v) @ body_of marshal v @ rest)
                  = (Inr (body_of marshal v), rest))
       \<and> written w' = written w @ frames (map (body_of marshal) vs)
       \<and> read_all (length vs) (frames (map (body_of marshal) vs))
           = (map (\<lambda>v. Inr (body_of marshal v)) vs, [])"
proof (intro conjI allI impI)
  fix v w1 w2 rest
  assume a: "marshals marshal v \<and> WriteMessage marshal w1 v = (None, w2)"
  then have m: "marshal v = Inr (body_of marshal v)" "body_of marshal v \<noteq> []"
    "int (length (body_of marshal v)) \<le> maxAlloc"
    by (simp_all add: marshals_body)
  from a WriteMessage_ok [where marshal = marshal and v = v, OF m(1)]
  show "written w2 = written w1 @ header_of (body_of marshal v) @ body_of marshal v"
    by simp
  from ReadMessage_written [OF m(2,3)]
  show "ReadMessage (header_of (body_of marshal v) @ body_of marshal v @ rest)
          = (Inr (body_of marshal v), rest)" .
next
  show "written w' = written w @ frames (map (body_of marshal) vs)"
    by (rule write_all_ok [OF assms])
next
  from assms(1)
  have "list_all (\<lambda>body. body \<noteq> [] \<and> int (length body) \<le> maxAlloc) (map (body_of marshal) vs)"
    by (simp add: list_all_iff marshals_body)
  from read_all_frames [OF this, of "[]"]
  show "read_all (length vs) (frames (map (body_of marshal) vs))
          = (map (\<lambda>v. Inr (body_of marshal v)) vs, [])"
    by (simp add: comp_def)
qed

lemma marshals_request: "marshals marshal_request q"
  by (cases q) (simp_all add: marshals_def maxAlloc_def)

lemma write_requests:
  "write_all marshal_request pipe0 [Initialize, Shutdown]
     = (None, \<lparr>written = frames (map (body_of marshal_request) [Initialize, Shutdown]),
               room = None\<rparr>)"
  by (simp add: WriteMessage_def Write_def pipe0_def frames_def body_of_def)

theorem framing_roundtrip_witness:
  "read_all 2 (written (snd (write_all marshal_request pipe0 [Initialize, Shutdown])))
     = ([Inr (body_of marshal_request Initialize), Inr (body_of marshal_request Shutdown)], [])
   \<and> ReadMessage (written (snd (WriteMessage marshal_request pipe0 Shutdown)) @ ''next'')
     = (Inr (body_of marshal_request Shutdown), ''next'')
   \<and> body_of marshal_request Shutdown = ''{\"jsonrpc\":\"2.0\",\"id\":2,\"method\":\"shutdown\"}''"
proof (intro conjI)
  have ms: "list_all (marshals marshal_request) [Initialize, Shutdown]"
    by (simp add: marshals_request)
  have one: "marshals marshal_request Shutdown
      \<and> WriteMessage marshal_request pipe0 Shutdown
          = (None, \<lparr>written = header_of (body_of marshal_request Shutdown)
                                @ body_of marshal_request Shutdown, room = None\<rparr>)"
    by (simp add: marshals_request WriteMessage_def Write_def pipe0_def body_of_def)
  have len: "length [Initialize, Shutdown] = 2"
    by simp
  have w2: "written (snd (write_all marshal_request pipe0 [Initialize, Shutdown]))
              = frames (map (body_of marshal_request) [Initialize, Shutdown])"
    unfolding write_requests by simp
  have w1: "written (snd (WriteMessage marshal_request pipe0 Shutdown))
              = header_of (body_of marshal_request Shutdown) @ body_of marshal_request Shutdown"
    using one by simp
  note rt = framing_roundtrip [OF ms write_requests]
  note r2 = rt [THEN conjunct2, THEN conjunct2, unfolded len]
  note r1 = rt [THEN conjunct1, rule_format, OF one, THEN conjunct2]
  show "read_all 2 (written (snd (write_all marshal_request pipe0 [Initialize, Shutdown])))
     = ([Inr (body_of marshal_request Initialize), Inr (body_of marshal_request Shutdown)], [])"
    unfolding w2 r2 by simp
  show "ReadMessage (written (snd (WriteMessage marshal_request pipe0 Shutdown)) @ ''next'')
     = (Inr (body_of marshal_request Shutdown), ''next'')"
    unfolding w1 append_assoc by (rule r1)
  show "body_of marshal_request Shutdown = ''{\"jsonrpc\":\"2.0\",\"id\":2,\"method\":\"shutdown\"}''"
    by (simp add: body_of_def)
qed

end
